theory Spec2Isabelle
  imports Complex_Main "HOL-Library.AList"
begin

section \<open>Values and strings\<close>

text \<open>
  The MCP layer passes JSON-shaped Python values around: tool schemas, call parameters and
  result payloads are all typed \<^verbatim>\<open>Any\<close> or \<^verbatim>\<open>Dict[str, Any]\<close>.
  A dictionary keeps its insertion order, so it is an association list. A float is only ever
  passed through (latencies), never computed with, and is carried as a real number.
  A string is a list of 8-bit characters; letters are the ASCII letters.
\<close>

datatype json =
    JNull
  | JBool bool
  | JInt int
  | JFloat real
  | JStr string
  | JList "json list"
  | JDict "(string \<times> json) list"

type_synonym dict = "(string \<times> json) list"

text \<open>\<^verbatim>\<open>str.lower()\<close>, \<^verbatim>\<open>str.upper()\<close> on ASCII letters.\<close>

definition is_upper :: "char \<Rightarrow> bool" where
  "is_upper c = (let n = (of_char c :: nat) in 65 \<le> n \<and> n \<le> 90)"

definition is_lower :: "char \<Rightarrow> bool" where
  "is_lower c = (let n = (of_char c :: nat) in 97 \<le> n \<and> n \<le> 122)"

definition lower_char :: "char \<Rightarrow> char" where
  "lower_char c = (if is_upper c then char_of ((of_char c :: nat) + 32) else c)"

definition upper_char :: "char \<Rightarrow> char" where
  "upper_char c = (if is_lower c then char_of ((of_char c :: nat) - 32) else c)"

definition lower :: "string \<Rightarrow> string" where
  "lower s = map lower_char s"

text \<open>\<^verbatim>\<open>s.startswith(p)\<close> and the substring test \<^verbatim>\<open>p in s\<close>.\<close>

fun startswith :: "string \<Rightarrow> string \<Rightarrow> bool" where
  "startswith s [] = True"
| "startswith [] (p # ps) = False"
| "startswith (c # cs) (p # ps) = (c = p \<and> startswith cs ps)"

fun str_in :: "string \<Rightarrow> string \<Rightarrow> bool" where
  "str_in p [] = (p = [])"
| "str_in p (c # cs) = (startswith (c # cs) p \<or> str_in p cs)"

section \<open>Security manager: masking\<close>

text \<open>
  \<^verbatim>\<open>MCPSecurityManager.mask_sensitive_data\<close> (security.py). The inner function
  \<^verbatim>\<open>_mask_value(key, value)\<close> recurses into dictionaries with each entry's own key and
  into lists with the key of the list; a string is masked when the lower-cased key contains
  one of the sensitive patterns.
\<close>

definition sensitive_patterns :: "string list" where
  "sensitive_patterns =
     [''url'', ''token'', ''secret'', ''key'', ''password'', ''auth'', ''credential'']"

definition is_sensitive :: "string \<Rightarrow> bool" where
  "is_sensitive key = (let key_lower = lower key in
     list_ex (\<lambda>pattern. str_in pattern key_lower) sensitive_patterns)"

definition mask_str :: "string \<Rightarrow> string" where
  "mask_str v = (if length v > 8 then take 4 v @ ''...'' @ drop (length v - 4) v else ''****'')"

fun mask_value :: "string \<Rightarrow> json \<Rightarrow> json"
  and mask_list :: "string \<Rightarrow> json list \<Rightarrow> json list"
  and mask_items :: "dict \<Rightarrow> dict" where
  "mask_value key (JDict d) = JDict (mask_items d)"
| "mask_value key (JList xs) = JList (mask_list key xs)"
| "mask_value key (JStr v) = (if is_sensitive key then JStr (mask_str v) else JStr v)"
| "mask_value key JNull = JNull"
| "mask_value key (JBool b) = JBool b"
| "mask_value key (JInt i) = JInt i"
| "mask_value key (JFloat r) = JFloat r"
| "mask_list key [] = []"
| "mask_list key (v # vs) = mask_value key v # mask_list key vs"
| "mask_items [] = []"
| "mask_items ((k, v) # kvs) = (k, mask_value k v) # mask_items kvs"

definition mask_sensitive_data :: "dict \<Rightarrow> dict" where
  "mask_sensitive_data data = mask_items data"

section \<open>Exceptions\<close>

text \<open>
  The exception hierarchy of exceptions.py. Every class below \<^verbatim>\<open>MCPError\<close> carries its
  message and the attributes the code reads later; \<open>PyException\<close> stands for any other
  Python \<^verbatim>\<open>Exception\<close>, with its class name and the text of \<^verbatim>\<open>str(e)\<close>, and
  \<open>PyBaseException\<close> for an exception outside the \<^verbatim>\<open>Exception\<close> hierarchy
  (\<^verbatim>\<open>asyncio.CancelledError\<close>, \<^verbatim>\<open>KeyboardInterrupt\<close>, \<^verbatim>\<open>SystemExit\<close>), which only
  the transport raises here, at an \<^verbatim>\<open>await\<close>. A raise is the \<open>Inl\<close> branch of a result.
\<close>

datatype exn =
    MCPError string
  | MCPAuthenticationError string bool
  | MCPConnectionError string
  | MCPToolExecutionError string "string option"
  | MCPRateLimitError string int
  | MCPValidationError string "(string \<times> string list) list"
  | MCPServerError string "int option"
  | PyException string string
  | PyBaseException string string

text \<open>\<^verbatim>\<open>str(e)\<close>: \<^verbatim>\<open>MCPError.__init__\<close> passes the message to \<^verbatim>\<open>Exception\<close>.\<close>

fun exn_str :: "exn \<Rightarrow> string" where
  "exn_str (MCPError m) = m"
| "exn_str (MCPAuthenticationError m _) = m"
| "exn_str (MCPConnectionError m) = m"
| "exn_str (MCPToolExecutionError m _) = m"
| "exn_str (MCPRateLimitError m _) = m"
| "exn_str (MCPValidationError m _) = m"
| "exn_str (MCPServerError m _) = m"
| "exn_str (PyException _ m) = m"
| "exn_str (PyBaseException _ m) = m"

text \<open>\<^verbatim>\<open>isinstance(e, MCPError)\<close>.\<close>

fun is_MCPError :: "exn \<Rightarrow> bool" where
  "is_MCPError (PyException _ _) = False"
| "is_MCPError (PyBaseException _ _) = False"
| "is_MCPError _ = True"

text \<open>
  \<^verbatim>\<open>isinstance(e, Exception)\<close>, the test of an \<^verbatim>\<open>except Exception\<close> clause: every
  \<^verbatim>\<open>MCPError\<close> and every exception of \<open>PyException\<close> passes it, a \<open>PyBaseException\<close>
  does not.
\<close>

fun is_Exception :: "exn \<Rightarrow> bool" where
  "is_Exception (PyBaseException _ _) = False"
| "is_Exception _ = True"

text \<open>The \<^verbatim>\<open>is_token_expired\<close> attribute of an authentication error.\<close>

fun is_token_expired :: "exn \<Rightarrow> bool" where
  "is_token_expired (MCPAuthenticationError _ b) = b"
| "is_token_expired _ = False"

text \<open>The \<^verbatim>\<open>field_errors\<close> attribute of a validation error.\<close>

fun field_errors :: "exn \<Rightarrow> (string \<times> string list) list" where
  "field_errors (MCPValidationError _ fe) = fe"
| "field_errors _ = []"

text \<open>
  Errors the interpreter raises on a value of the wrong kind. Their wording depends on the
  offending object and on the Python version; one wording per kind is fixed here.
\<close>

definition TypeError :: exn where
  "TypeError = PyException ''TypeError'' ''unsupported operand''"

definition AttributeError :: exn where
  "AttributeError = PyException ''AttributeError'' ''object has no such attribute''"

definition KeyError :: exn where
  "KeyError = PyException ''KeyError'' ''missing key''"

section \<open>Python operations on dynamic values\<close>

text \<open>Truthiness, as \<^verbatim>\<open>if x:\<close> and \<^verbatim>\<open>x or y\<close> test it.\<close>

fun truthy :: "json \<Rightarrow> bool" where
  "truthy JNull = False"
| "truthy (JBool b) = b"
| "truthy (JInt i) = (i \<noteq> 0)"
| "truthy (JFloat r) = (r \<noteq> 0)"
| "truthy (JStr s) = (s \<noteq> [])"
| "truthy (JList xs) = (xs \<noteq> [])"
| "truthy (JDict d) = (d \<noteq> [])"

text \<open>Lists and dictionaries are unhashable: they cannot be set members or dictionary keys.\<close>

fun hashable :: "json \<Rightarrow> bool" where
  "hashable (JList _) = False"
| "hashable (JDict _) = False"
| "hashable _ = True"

text \<open>\<^verbatim>\<open>key in x\<close> for a string \<open>key\<close>.\<close>

fun py_in :: "string \<Rightarrow> json \<Rightarrow> exn + bool" where
  "py_in key (JDict d) = Inr (key \<in> set (map fst d))"
| "py_in key (JList xs) = Inr (JStr key \<in> set xs)"
| "py_in key (JStr s) = Inr (str_in key s)"
| "py_in key _ = Inl TypeError"

text \<open>\<^verbatim>\<open>x.get(key, default)\<close>: only a dictionary has \<^verbatim>\<open>get\<close>.\<close>

fun py_get :: "json \<Rightarrow> string \<Rightarrow> json \<Rightarrow> exn + json" where
  "py_get (JDict d) key dflt = Inr (case map_of d key of None \<Rightarrow> dflt | Some v \<Rightarrow> v)"
| "py_get _ key dflt = Inl AttributeError"

text \<open>\<^verbatim>\<open>x[key]\<close> for a string \<open>key\<close>.\<close>

fun py_getitem :: "json \<Rightarrow> string \<Rightarrow> exn + json" where
  "py_getitem (JDict d) key = (case map_of d key of None \<Rightarrow> Inl KeyError | Some v \<Rightarrow> Inr v)"
| "py_getitem _ key = Inl TypeError"

text \<open>\<^verbatim>\<open>list(x.keys())\<close>.\<close>

fun py_keys :: "json \<Rightarrow> exn + string list" where
  "py_keys (JDict d) = Inr (map fst d)"
| "py_keys _ = Inl AttributeError"

text \<open>The elements a \<^verbatim>\<open>for\<close> loop over \<open>x\<close> visits.\<close>

fun py_iter :: "json \<Rightarrow> exn + json list" where
  "py_iter (JList xs) = Inr xs"
| "py_iter (JDict d) = Inr (map (\<lambda>kv. JStr (fst kv)) d)"
| "py_iter (JStr s) = Inr (map (\<lambda>c. JStr [c]) s)"
| "py_iter _ = Inl TypeError"

text \<open>\<^verbatim>\<open>set(x)\<close>, as the list of its members.\<close>

definition py_set :: "json \<Rightarrow> exn + json list" where
  "py_set x = (case py_iter x of
       Inl e \<Rightarrow> Inl e
     | Inr xs \<Rightarrow> if list_all hashable xs then Inr xs else Inl TypeError)"

text \<open>
  Two library functions are parameters of the model: \<^verbatim>\<open>json.loads\<close> and the text
  \<^verbatim>\<open>str(x)\<close> gives a value that is not a string. A call of \<^verbatim>\<open>json.loads\<close> on a string
  has three outcomes: it returns the decoded value, it raises \<^verbatim>\<open>JSONDecodeError\<close> (the
  text is not JSON), or it raises another exception, given by its class name and message:
  \<^verbatim>\<open>ValueError\<close> on an integer literal with more digits than the interpreter converts
  (4300 by default), \<^verbatim>\<open>RecursionError\<close> on a text nested too deeply. An
  \<^verbatim>\<open>except json.JSONDecodeError\<close> clause catches only the second.
\<close>

datatype decoded = Decoded json | JSONDecodeError | DecodeRaises string string

record interp =
  json_loads :: "string \<Rightarrow> decoded"
  render :: "json \<Rightarrow> string"

definition str_of :: "interp \<Rightarrow> json \<Rightarrow> string" where
  "str_of I v = (case v of JStr s \<Rightarrow> s | _ \<Rightarrow> render I v)"

text \<open>\<^verbatim>\<open>sep.join(xs)\<close>.\<close>

fun join :: "string \<Rightarrow> string list \<Rightarrow> string" where
  "join sep [] = []"
| "join sep [x] = x"
| "join sep (x # y # ys) = x @ sep @ join sep (y # ys)"

section \<open>Tool definitions\<close>

text \<open>
  \<^verbatim>\<open>MCPTool\<close> (client.py). The dataclass does not check its fields, and \<^verbatim>\<open>from_dict\<close>
  fills them with whatever the server sent, so each field holds a dynamic value.
\<close>

record MCPTool =
  name :: json
  description :: json
  input_schema :: json
  provider :: json
  category :: json

definition required_params :: "MCPTool \<Rightarrow> exn + json" where
  "required_params t = (let schema = input_schema t in
     case py_in ''properties'' schema of
       Inl e \<Rightarrow> Inl e
     | Inr True \<Rightarrow> py_get schema ''required'' (JList [])
     | Inr False \<Rightarrow> Inr (JList []))"

definition all_params :: "MCPTool \<Rightarrow> exn + string list" where
  "all_params t = (let schema = input_schema t in
     case py_in ''properties'' schema of
       Inl e \<Rightarrow> Inl e
     | Inr True \<Rightarrow> (case py_getitem schema ''properties'' of
           Inl e \<Rightarrow> Inl e
         | Inr props \<Rightarrow> py_keys props)
     | Inr False \<Rightarrow> Inr [])"

definition optional_params :: "MCPTool \<Rightarrow> exn + string list" where
  "optional_params t = (let schema = input_schema t in
     case py_in ''properties'' schema of
       Inl e \<Rightarrow> Inl e
     | Inr True \<Rightarrow> (case py_getitem schema ''properties'' of
           Inl e \<Rightarrow> Inl e
         | Inr props \<Rightarrow> (case py_keys props of
               Inl e \<Rightarrow> Inl e
             | Inr all_ps \<Rightarrow> (case required_params t of
                   Inl e \<Rightarrow> Inl e
                 | Inr req \<Rightarrow> (case py_set req of
                       Inl e \<Rightarrow> Inl e
                     | Inr required \<Rightarrow> Inr (filter (\<lambda>p. JStr p \<notin> set required) all_ps)))))
     | Inr False \<Rightarrow> Inr [])"

text \<open>
  \<^verbatim>\<open>validate_params\<close>: one message per required parameter that is missing from
  \<open>params\<close> or is \<^verbatim>\<open>None\<close> there, in the order of the schema. Unknown parameters are
  only logged, but \<^verbatim>\<open>set(self.all_params)\<close> is still evaluated.
\<close>

fun check_required :: "interp \<Rightarrow> dict \<Rightarrow> string list \<Rightarrow> json list \<Rightarrow> exn + string list" where
  "check_required I params errors [] = Inr errors"
| "check_required I params errors (required # rest) =
     (if \<not> hashable required then Inl TypeError
      else (case (case required of JStr k \<Rightarrow> map_of params k | _ \<Rightarrow> None) of
          None \<Rightarrow> check_required I params
                    (errors @ [''Missing required parameter: '' @ str_of I required]) rest
        | Some JNull \<Rightarrow> check_required I params
                    (errors @ [''Required parameter cannot be null: '' @ str_of I required]) rest
        | Some _ \<Rightarrow> check_required I params errors rest))"

definition validate_params :: "interp \<Rightarrow> MCPTool \<Rightarrow> dict \<Rightarrow> exn + string list" where
  "validate_params I t params =
     (case required_params t of
        Inl e \<Rightarrow> Inl e
      | Inr req \<Rightarrow> (case py_iter req of
            Inl e \<Rightarrow> Inl e
          | Inr rs \<Rightarrow> (case check_required I params [] rs of
                Inl e \<Rightarrow> Inl e
              | Inr errors \<Rightarrow> (case all_params t of
                    Inl e \<Rightarrow> Inl e
                  | Inr known_params \<Rightarrow> Inr errors))))"

definition from_dict :: "json \<Rightarrow> exn + MCPTool" where
  "from_dict data =
     (case py_get data ''name'' (JStr ''unknown'') of Inl e \<Rightarrow> Inl e | Inr n \<Rightarrow>
      case py_get data ''description'' (JStr []) of Inl e \<Rightarrow> Inl e | Inr d \<Rightarrow>
      case py_get data ''input_schema'' (JDict []) of Inl e \<Rightarrow> Inl e | Inr s0 \<Rightarrow>
      case py_get data ''inputSchema'' s0 of Inl e \<Rightarrow> Inl e | Inr s \<Rightarrow>
      case py_get data ''provider'' JNull of Inl e \<Rightarrow> Inl e | Inr p \<Rightarrow>
      case py_get data ''category'' JNull of Inl e \<Rightarrow> Inl e | Inr c \<Rightarrow>
        Inr \<lparr>name = n, description = d, input_schema = s, provider = p, category = c\<rparr>)"

definition to_dict :: "MCPTool \<Rightarrow> exn + dict" where
  "to_dict t =
     (case required_params t of Inl e \<Rightarrow> Inl e | Inr req \<Rightarrow>
      case optional_params t of Inl e \<Rightarrow> Inl e | Inr opt \<Rightarrow>
        Inr [(''name'', name t),
             (''description'', description t),
             (''input_schema'', input_schema t),
             (''provider'', provider t),
             (''category'', category t),
             (''required_params'', req),
             (''optional_params'', JList (map JStr opt))])"

section \<open>Security manager: credentials\<close>

text \<open>
  \<^verbatim>\<open>MCPCredentials\<close> and \<^verbatim>\<open>MCPSecurityManager\<close> (security.py). A point in time is a
  number of seconds; every \<^verbatim>\<open>datetime.now(timezone.utc)\<close> the code evaluates is an explicit
  argument \<open>now\<close> of the function that reads the clock.
\<close>

record MCPCredentials =
  server_url :: string
  cred_provider :: string
  server_id :: "string option"
  created_at :: real
  expires_at :: "real option"
  cred_metadata :: dict

definition is_expired :: "real \<Rightarrow> MCPCredentials \<Rightarrow> bool" where
  "is_expired now creds =
     (case expires_at creds of None \<Rightarrow> False | Some t \<Rightarrow> now > t)"

definition is_valid :: "real \<Rightarrow> MCPCredentials \<Rightarrow> bool" where
  "is_valid now creds = (server_url creds \<noteq> [] \<and> \<not> is_expired now creds)"

record MCPSecurityManager =
  credentials_cache :: "(string \<times> MCPCredentials) list"
  mcp_enabled :: bool

definition is_zapier_configured :: "real \<Rightarrow> MCPSecurityManager \<Rightarrow> bool" where
  "is_zapier_configured now m =
     (case map_of (credentials_cache m) ''zapier'' of
        None \<Rightarrow> False
      | Some creds \<Rightarrow> is_valid now creds)"

text \<open>
  \<^verbatim>\<open>get_zapier_credentials\<close> reads the clock twice: \<open>now1\<close> inside
  \<^verbatim>\<open>is_zapier_configured\<close>, \<open>now2\<close> in its own expiry test. \<open>Inr None\<close> is the
  \<^verbatim>\<open>return None\<close>.
\<close>

definition get_zapier_credentials ::
  "real \<Rightarrow> real \<Rightarrow> MCPSecurityManager \<Rightarrow> exn + MCPCredentials option" where
  "get_zapier_credentials now1 now2 m =
     (if \<not> is_zapier_configured now1 m then Inr None
      else (case map_of (credentials_cache m) ''zapier'' of
          None \<Rightarrow> Inl KeyError
        | Some creds \<Rightarrow>
            if is_expired now2 creds
            then Inl (MCPAuthenticationError ''Zapier MCP credentials have expired'' True)
            else Inr (Some creds)))"

section \<open>Transport interface\<close>

text \<open>
  Modelled from the spec: transport.py (\<^verbatim>\<open>MCPTransport\<close>, \<^verbatim>\<open>MCPRequest\<close>,
  \<^verbatim>\<open>MCPResponse\<close>, \<^verbatim>\<open>MCPMethod\<close>, \<^verbatim>\<open>JSONRPCErrorCode\<close>) is not among the sources.
  The client only uses the names below. The error codes are kept as names, the response as
  the record of the attributes the client reads, and the transport itself is a parameter:
  any functions over a state \<open>'w\<close> of the outside world, which also holds the clock.
  \<^verbatim>\<open>connect\<close> and \<^verbatim>\<open>send_request\<close> return or raise: the spec keeps exceptions for
  programmer errors (4.1) and lets a caller abandon a call at a suspension point (5), which
  in Python raises \<^verbatim>\<open>asyncio.CancelledError\<close> at the \<^verbatim>\<open>await\<close>. \<^verbatim>\<open>disconnect\<close> does not
  raise (spec 4.1).
\<close>

datatype MCPMethod = INITIALIZE | TOOLS_LIST | TOOLS_CALL | RESOURCES_LIST | RESOURCES_READ | PING

datatype JSONRPCErrorCode =
  INVALID_PARAMS | RATE_LIMITED | METHOD_NOT_FOUND | AUTHENTICATION_FAILED | SERVER_ERROR
  | OTHER_CODE int

record MCPRequest =
  req_method :: MCPMethod
  req_params :: "json option"

record MCPResponse =
  is_success :: bool
  response_result :: json
  error_message :: "string option"
  response_error_code :: "JSONRPCErrorCode option"
  latency_ms :: "real option"
  is_rate_limited :: bool
  is_auth_error :: bool
  http_status :: "int option"

record 'w transport =
  transport_connect :: "'w \<Rightarrow> (exn + bool) \<times> 'w"
  transport_disconnect :: "'w \<Rightarrow> 'w"
  send_request :: "'w \<Rightarrow> MCPRequest \<Rightarrow> (exn + MCPResponse) \<times> 'w"
  transport_is_connected :: "'w \<Rightarrow> bool"
  utcnow :: "'w \<Rightarrow> real"

section \<open>Tool results\<close>

record MCPToolResult =
  success :: bool
  tool_name :: string
  result :: json
  error :: "string option"
  error_code :: "JSONRPCErrorCode option"
  execution_time_ms :: "real option"
  metadata :: dict

definition from_response :: "string \<Rightarrow> MCPResponse \<Rightarrow> MCPToolResult" where
  "from_response tn response =
     (if is_success response
      then \<lparr>success = True, tool_name = tn, result = response_result response,
            error = None, error_code = None,
            execution_time_ms = latency_ms response, metadata = []\<rparr>
      else \<lparr>success = False, tool_name = tn, result = JNull,
            error = error_message response, error_code = response_error_code response,
            execution_time_ms = latency_ms response, metadata = []\<rparr>)"

definition from_error :: "string \<Rightarrow> string \<Rightarrow> JSONRPCErrorCode option \<Rightarrow> MCPToolResult" where
  "from_error tn err code =
     \<lparr>success = False, tool_name = tn, result = JNull, error = Some err, error_code = code,
      execution_time_ms = None, metadata = []\<rparr>"

section \<open>Client\<close>

text \<open>
  \<^verbatim>\<open>MCPClient\<close> (client.py). The object's fields are a record; \<open>world\<close> is the state
  of the transport it holds. Every method takes the client and returns it updated, next to
  its result or the exception it raises. The tool cache is a dictionary keyed by tool name;
  keys are compared as values.
\<close>

record 'w MCPClient =
  world :: 'w
  cache_tools :: bool
  tool_cache_ttl :: int
  validate_params_default :: bool
  tools_cache :: "(json \<times> MCPTool) list"
  tools_cache_time :: "real option"
  connected :: bool
  server_info :: json
  call_count :: nat
  error_count :: nat

definition is_connected :: "'w transport \<Rightarrow> 'w MCPClient \<Rightarrow> bool" where
  "is_connected T c = (connected c \<and> transport_is_connected T (world c))"

definition is_cache_valid :: "'w transport \<Rightarrow> 'w MCPClient \<Rightarrow> bool" where
  "is_cache_valid T c =
     (if \<not> cache_tools c then False
      else if tools_cache c = [] \<or> tools_cache_time c = None then False
      else (case tools_cache_time c of
          None \<Rightarrow> False
        | Some t \<Rightarrow> utcnow T (world c) - t < real_of_int (tool_cache_ttl c)))"

text \<open>\<^verbatim>\<open>_handle_error_response\<close> raises on every path; this is the exception it raises.\<close>

definition handle_error_response :: "MCPResponse \<Rightarrow> string \<Rightarrow> exn" where
  "handle_error_response response operation =
     (let code = response_error_code response;
          msg = (case error_message response of
                   None \<Rightarrow> ''Unknown error''
                 | Some m \<Rightarrow> if m = [] then ''Unknown error'' else m)
      in if is_auth_error response
         then MCPAuthenticationError
                (''Authentication failed during '' @ operation @ '': '' @ msg)
                (code = Some AUTHENTICATION_FAILED)
         else if is_rate_limited response
         then MCPRateLimitError (''Rate limited during '' @ operation @ '': '' @ msg) 60
         else if code = Some METHOD_NOT_FOUND
         then MCPToolExecutionError (''Method not found: '' @ operation) (Some operation)
         else if code = Some INVALID_PARAMS
         then MCPValidationError (''Invalid parameters for '' @ operation @ '': '' @ msg) []
         else MCPServerError (''Server error during '' @ operation @ '': '' @ msg)
                (http_status response))"

text \<open>
  The loop of \<^verbatim>\<open>list_tools\<close> over the discovery response: each entry is parsed, appended
  to the returned list and stored in the cache under its name. An exception leaves the
  entries stored so far in the cache.
\<close>

fun parse_tools ::
  "json list \<Rightarrow> MCPTool list \<Rightarrow> (json \<times> MCPTool) list
     \<Rightarrow> (exn + MCPTool list) \<times> (json \<times> MCPTool) list" where
  "parse_tools [] tools cache = (Inr tools, cache)"
| "parse_tools (tool_data # rest) tools cache =
     (case from_dict tool_data of
        Inl e \<Rightarrow> (Inl e, cache)
      | Inr tool \<Rightarrow>
          if \<not> hashable (name tool) then (Inl TypeError, cache)
          else parse_tools rest (tools @ [tool]) (AList.update (name tool) tool cache))"

text \<open>The part of \<^verbatim>\<open>list_tools\<close> that reads the tools out of a successful response.\<close>

definition load_tools ::
  "json \<Rightarrow> (json \<times> MCPTool) list \<Rightarrow> (exn + MCPTool list) \<times> (json \<times> MCPTool) list" where
  "load_tools res cache =
     (if truthy res
      then (case py_get res ''tools'' (JList []) of
          Inl e \<Rightarrow> (Inl e, cache)
        | Inr tools_data \<Rightarrow>
            (case py_iter tools_data of
               Inl e \<Rightarrow> (Inl e, cache)
             | Inr items \<Rightarrow> parse_tools items [] cache))
      else (Inr [], cache))"

definition list_tools ::
  "'w transport \<Rightarrow> 'w MCPClient \<Rightarrow> bool \<Rightarrow> (exn + MCPTool list) \<times> 'w MCPClient" where
  "list_tools T c force_refresh =
     (if \<not> is_connected T c then (Inl (MCPConnectionError ''Not connected to MCP server''), c)
      else if \<not> force_refresh \<and> is_cache_valid T c then (Inr (map snd (tools_cache c)), c)
      else (case send_request T (world c) \<lparr>req_method = TOOLS_LIST, req_params = None\<rparr> of
          (Inl e, w) \<Rightarrow> (Inl e, c\<lparr>world := w\<rparr>)
        | (Inr response, w) \<Rightarrow>
            if \<not> is_success response
            then (Inl (handle_error_response response ''list_tools''), c\<lparr>world := w\<rparr>)
            else (case load_tools (response_result response) (tools_cache c) of
                (Inl e, cache) \<Rightarrow> (Inl e, c\<lparr>world := w, tools_cache := cache\<rparr>)
              | (Inr tools, cache) \<Rightarrow>
                  (Inr tools, c\<lparr>world := w, tools_cache := cache,
                                tools_cache_time := Some (utcnow T w)\<rparr>))))"

definition get_tool ::
  "'w transport \<Rightarrow> 'w MCPClient \<Rightarrow> string \<Rightarrow> (exn + MCPTool option) \<times> 'w MCPClient" where
  "get_tool T c tn =
     (if tools_cache c = []
      then (case list_tools T c False of
          (Inl e, c1) \<Rightarrow> (Inl e, c1)
        | (Inr tools, c1) \<Rightarrow> (Inr (map_of (tools_cache c1) (JStr tn)), c1))
      else (Inr (map_of (tools_cache c) (JStr tn)), c))"

definition init_request :: MCPRequest where
  "init_request = \<lparr>req_method = INITIALIZE, req_params = Some (JDict
     [(''protocolVersion'', JStr ''2024-11-05''),
      (''capabilities'', JDict [(''tools'', JDict []), (''resources'', JDict [])]),
      (''clientInfo'', JDict [(''name'', JStr ''CS-Agent-MCP-Client''),
                              (''version'', JStr ''1.0.0'')])])\<rparr>"

text \<open>
  \<^verbatim>\<open>connect\<close>: the handshake and the pre-fetch of the tools are each wrapped in their own
  \<^verbatim>\<open>try ... except Exception\<close>, so of the exceptions of class \<^verbatim>\<open>Exception\<close> only those
  of the transport's own connect make it raise. An exception outside that class passes
  every \<^verbatim>\<open>except\<close> clause of the method. \<open>prefetch_tools\<close> is the last step, with the
  \<^verbatim>\<open>return True\<close> after it.
\<close>

definition prefetch_tools ::
  "'w transport \<Rightarrow> 'w MCPClient \<Rightarrow> (exn + bool) \<times> 'w MCPClient" where
  "prefetch_tools T c =
     (if cache_tools c
      then (case list_tools T c False of
          (Inl e, c1) \<Rightarrow> if is_Exception e then (Inr True, c1) else (Inl e, c1)
        | (Inr tools, c1) \<Rightarrow> (Inr True, c1))
      else (Inr True, c))"

definition connect :: "'w transport \<Rightarrow> 'w MCPClient \<Rightarrow> (exn + bool) \<times> 'w MCPClient" where
  "connect T c =
     (case transport_connect T (world c) of
        (Inl e, w) \<Rightarrow>
          (Inl (if is_MCPError e then e
                else if is_Exception e
                then MCPConnectionError (''Failed to connect: '' @ exn_str e)
                else e), c\<lparr>world := w\<rparr>)
      | (Inr ok, w) \<Rightarrow>
          if \<not> ok then (Inl (MCPConnectionError ''Transport failed to connect''), c\<lparr>world := w\<rparr>)
          else (let c1 = c\<lparr>world := w, connected := True\<rparr>
                in case send_request T (world c1) init_request of
                     (Inl e, w2) \<Rightarrow>
                       if is_Exception e then prefetch_tools T (c1\<lparr>world := w2\<rparr>)
                       else (Inl e, c1\<lparr>world := w2\<rparr>)
                   | (Inr response, w2) \<Rightarrow>
                       prefetch_tools T
                         (if is_success response
                          then c1\<lparr>world := w2, server_info := response_result response\<rparr>
                          else c1\<lparr>world := w2\<rparr>)))"

definition disconnect :: "'w transport \<Rightarrow> 'w MCPClient \<Rightarrow> 'w MCPClient" where
  "disconnect T c =
     c\<lparr>world := transport_disconnect T (world c),
       connected := False,
       tools_cache := [],
       tools_cache_time := None,
       server_info := JNull\<rparr>"

text \<open>
  \<^verbatim>\<open>call_tool\<close>. The success branch formats the latency with \<^verbatim>\<open>:.1f\<close>, which raises
  \<^verbatim>\<open>TypeError\<close> when the response carries none.
\<close>

definition call_tool ::
  "'w transport \<Rightarrow> interp \<Rightarrow> 'w MCPClient \<Rightarrow> string \<Rightarrow> dict \<Rightarrow> bool option
     \<Rightarrow> (exn + MCPToolResult) \<times> 'w MCPClient" where
  "call_tool T I c tn ps validate =
     (if \<not> is_connected T c then (Inl (MCPConnectionError ''Not connected to MCP server''), c)
      else
        (let c1 = c\<lparr>call_count := call_count c + 1\<rparr>;
             should_validate = (case validate of None \<Rightarrow> validate_params_default c1 | Some v \<Rightarrow> v)
         in case get_tool T c1 tn of
              (Inl e, c2) \<Rightarrow> (Inl e, c2)
            | (Inr tool, c2) \<Rightarrow>
               (case (case tool of
                        None \<Rightarrow> Inr []
                      | Some t \<Rightarrow> if should_validate then validate_params I t ps else Inr []) of
                  Inl e \<Rightarrow> (Inl e, c2)
                | Inr errors \<Rightarrow>
                   if errors \<noteq> []
                   then (Inl (MCPValidationError
                                (''Invalid parameters for '' @ tn @ '': '' @ join ''; '' errors)
                                [(tn, errors)]), c2)
                   else (case send_request T (world c2)
                                \<lparr>req_method = TOOLS_CALL,
                                 req_params = Some (JDict [(''name'', JStr tn),
                                                       (''arguments'', JDict ps)])\<rparr> of
                       (Inl e, w) \<Rightarrow> (Inl e, c2\<lparr>world := w\<rparr>)
                     | (Inr response, w) \<Rightarrow>
                        (let c3 = c2\<lparr>world := w\<rparr>;
                             res = from_response tn response
                         in if success res
                            then (if execution_time_ms res = None then (Inl TypeError, c3)
                                  else (Inr res, c3))
                            else (let c4 = c3\<lparr>error_count := error_count c3 + 1\<rparr>
                                  in if is_rate_limited response
                                     then (Inl (MCPRateLimitError
                                            (''Rate limited while executing '' @ tn) 60), c4)
                                     else if is_auth_error response
                                     then (Inl (MCPAuthenticationError
                                            (''Authentication failed for '' @ tn) False), c4)
                                     else (Inr res, c4)))))))"

text \<open>
  \<^verbatim>\<open>call_tool_safe\<close>: the call inside a \<^verbatim>\<open>try\<close> with four \<^verbatim>\<open>except\<close> clauses, for
  \<^verbatim>\<open>MCPValidationError\<close>, \<^verbatim>\<open>MCPRateLimitError\<close>, \<^verbatim>\<open>MCPError\<close> and \<^verbatim>\<open>Exception\<close>.
  What none of them catches is raised on.
\<close>

definition call_tool_safe ::
  "'w transport \<Rightarrow> interp \<Rightarrow> 'w MCPClient \<Rightarrow> string \<Rightarrow> dict
     \<Rightarrow> (exn + MCPToolResult) \<times> 'w MCPClient" where
  "call_tool_safe T I c tn ps =
     (case call_tool T I c tn ps None of
        (Inr res, c1) \<Rightarrow> (Inr res, c1)
      | (Inl e, c1) \<Rightarrow>
          (case e of
             MCPValidationError m fe \<Rightarrow>
               (Inr (from_error tn (exn_str e) (Some INVALID_PARAMS)), c1)
           | MCPRateLimitError m ra \<Rightarrow>
               (Inr (from_error tn (exn_str e) (Some RATE_LIMITED)), c1)
           | PyException k m \<Rightarrow>
               (Inr (from_error tn (''Unexpected error: '' @ exn_str e) None), c1)
           | PyBaseException k m \<Rightarrow> (Inl e, c1)
           | _ \<Rightarrow> (Inr (from_error tn (exn_str e) None), c1)))"

section \<open>Schemas of the expected shape\<close>

text \<open>
  The shape \<^verbatim>\<open>required_params\<close>, \<^verbatim>\<open>all_params\<close> and \<^verbatim>\<open>optional_params\<close> rely on
  without checking it: the schema is a dictionary; its \<open>properties\<close> entry, when there is one,
  is a dictionary, and its \<open>required\<close> entry, when there is one, is a list of hashable values.
\<close>

fun schema_shaped :: "json \<Rightarrow> bool" where
  "schema_shaped (JDict d) =
     (case map_of d ''properties'' of
        None \<Rightarrow> True
      | Some (JDict props) \<Rightarrow>
          (case map_of d ''required'' of
             None \<Rightarrow> True
           | Some (JList rs) \<Rightarrow> list_all hashable rs
           | Some _ \<Rightarrow> False)
      | Some _ \<Rightarrow> False)"
| "schema_shaped _ = False"

text \<open>The names under \<open>properties\<close> and the entries under \<open>required\<close> of such a schema.\<close>

definition schema_properties :: "dict \<Rightarrow> string list" where
  "schema_properties d =
     (case map_of d ''properties'' of Some (JDict props) \<Rightarrow> map fst props | _ \<Rightarrow> [])"

definition schema_required :: "dict \<Rightarrow> json list" where
  "schema_required d =
     (case map_of d ''properties'' of
        None \<Rightarrow> []
      | Some _ \<Rightarrow> (case map_of d ''required'' of Some (JList rs) \<Rightarrow> rs | _ \<Rightarrow> []))"

section \<open>Example values\<close>

text \<open>A tool whose schema requires \<open>to\<close> and \<open>subject\<close> and also declares \<open>body\<close>.\<close>

definition email_schema :: dict where
  "email_schema =
     [(''type'', JStr ''object''),
      (''properties'', JDict [(''to'', JDict []), (''subject'', JDict []), (''body'', JDict [])]),
      (''required'', JList [JStr ''to'', JStr ''subject''])]"

definition email_tool :: MCPTool where
  "email_tool = \<lparr>name = JStr ''send_email'', description = JStr ''Send an email'',
     input_schema = JDict email_schema, provider = JNull, category = JNull\<rparr>"

text \<open>A tool whose schema requires \<open>b\<close> but declares only the property \<open>a\<close>.\<close>

definition undeclared_required_tool :: MCPTool where
  "undeclared_required_tool = \<lparr>name = JStr ''t'', description = JStr ''a tool'',
     input_schema = JDict [(''properties'', JDict [(''a'', JDict [])]),
                           (''required'', JList [JStr ''b''])],
     provider = JNull, category = JNull\<rparr>"

text \<open>A tool whose schema has \<^verbatim>\<open>None\<close> under \<open>properties\<close>.\<close>

definition null_properties_tool :: MCPTool where
  "null_properties_tool = \<lparr>name = JStr ''t'', description = JStr ''a tool'',
     input_schema = JDict [(''properties'', JNull)], provider = JNull, category = JNull\<rparr>"

text \<open>Credentials that expired at time 100, in the cache of a security manager.\<close>

definition expired_credentials :: MCPCredentials where
  "expired_credentials = \<lparr>server_url = ''https://mcp.zapier.com/api/v1/abc123xyz789'',
     cred_provider = ''zapier'', server_id = Some ''abc1...z789'', created_at = 0,
     expires_at = Some 100, cred_metadata = []\<rparr>"

definition expired_manager :: MCPSecurityManager where
  "expired_manager = \<lparr>credentials_cache = [(''zapier'', expired_credentials)],
     mcp_enabled = True\<rparr>"

section \<open>Zapier tools and their categories\<close>

text \<open>More string methods: \<^verbatim>\<open>s.split(sep)\<close> and \<^verbatim>\<open>s.replace(old, new)\<close> for one-character
  arguments, and \<^verbatim>\<open>s.title()\<close>.\<close>

fun split_on :: "char \<Rightarrow> string \<Rightarrow> string list" where
  "split_on sep [] = [[]]"
| "split_on sep (c # cs) =
     (if c = sep then [] # split_on sep cs
      else (case split_on sep cs of [] \<Rightarrow> [[c]] | w # ws \<Rightarrow> (c # w) # ws))"

definition replace_char :: "char \<Rightarrow> char \<Rightarrow> string \<Rightarrow> string" where
  "replace_char old new s = map (\<lambda>c. if c = old then new else c) s"

fun title_from :: "bool \<Rightarrow> string \<Rightarrow> string" where
  "title_from prev_cased [] = []"
| "title_from prev_cased (c # cs) =
     (if is_upper c \<or> is_lower c
      then (if prev_cased then lower_char c else upper_char c) # title_from True cs
      else c # title_from False cs)"

definition title :: "string \<Rightarrow> string" where
  "title s = title_from False s"

datatype ZapierToolCategory =
  EMAIL | CRM | SPREADSHEET | CALENDAR | MESSAGING | PROJECT | STORAGE | SOCIAL | ECOMMERCE
  | SUPPORT | AUTOMATION | DATABASE | MARKETING | ANALYTICS | FINANCE | HR | OTHER

fun category_value :: "ZapierToolCategory \<Rightarrow> string" where
  "category_value EMAIL = ''email''"
| "category_value CRM = ''crm''"
| "category_value SPREADSHEET = ''spreadsheet''"
| "category_value CALENDAR = ''calendar''"
| "category_value MESSAGING = ''messaging''"
| "category_value PROJECT = ''project''"
| "category_value STORAGE = ''storage''"
| "category_value SOCIAL = ''social''"
| "category_value ECOMMERCE = ''ecommerce''"
| "category_value SUPPORT = ''support''"
| "category_value AUTOMATION = ''automation''"
| "category_value DATABASE = ''database''"
| "category_value MARKETING = ''marketing''"
| "category_value ANALYTICS = ''analytics''"
| "category_value FINANCE = ''finance''"
| "category_value HR = ''hr''"
| "category_value OTHER = ''other''"

record ZapierTool =
  mcp_tool :: MCPTool
  app_name :: string
  action_name :: string
  tool_category :: ZapierToolCategory
  requires_auth :: bool
  is_configured :: bool

definition CATEGORY_PREFIXES :: "(string \<times> ZapierToolCategory) list" where
  "CATEGORY_PREFIXES =
     [(''gmail'', EMAIL), (''outlook'', EMAIL), (''sendgrid'', EMAIL), (''mailchimp'', EMAIL),
      (''mailgun'', EMAIL), (''postmark'', EMAIL),
      (''slack'', MESSAGING), (''discord'', MESSAGING), (''teams'', MESSAGING),
      (''telegram'', MESSAGING), (''whatsapp'', MESSAGING), (''twilio'', MESSAGING),
      (''sms'', MESSAGING),
      (''google_sheets'', SPREADSHEET), (''sheets'', SPREADSHEET), (''excel'', SPREADSHEET),
      (''airtable'', SPREADSHEET), (''smartsheet'', SPREADSHEET),
      (''notion'', PROJECT), (''trello'', PROJECT), (''asana'', PROJECT), (''jira'', PROJECT),
      (''monday'', PROJECT), (''clickup'', PROJECT), (''basecamp'', PROJECT),
      (''todoist'', PROJECT),
      (''calendar'', CALENDAR), (''google_calendar'', CALENDAR),
      (''outlook_calendar'', CALENDAR), (''calendly'', CALENDAR),
      (''salesforce'', CRM), (''hubspot'', CRM), (''pipedrive'', CRM), (''zoho'', CRM),
      (''copper'', CRM), (''freshsales'', CRM),
      (''zendesk'', SUPPORT), (''intercom'', SUPPORT), (''freshdesk'', SUPPORT),
      (''helpscout'', SUPPORT), (''crisp'', SUPPORT),
      (''shopify'', ECOMMERCE), (''stripe'', ECOMMERCE), (''woocommerce'', ECOMMERCE),
      (''square'', ECOMMERCE), (''paypal'', ECOMMERCE),
      (''google_drive'', STORAGE), (''drive'', STORAGE), (''dropbox'', STORAGE),
      (''onedrive'', STORAGE), (''box'', STORAGE),
      (''twitter'', SOCIAL), (''facebook'', SOCIAL), (''instagram'', SOCIAL),
      (''linkedin'', SOCIAL), (''youtube'', SOCIAL), (''tiktok'', SOCIAL),
      (''mysql'', DATABASE), (''postgres'', DATABASE), (''mongodb'', DATABASE),
      (''firebase'', DATABASE), (''supabase'', DATABASE),
      (''mailerlite'', MARKETING), (''convertkit'', MARKETING), (''activecampaign'', MARKETING),
      (''drip'', MARKETING),
      (''google_analytics'', ANALYTICS), (''mixpanel'', ANALYTICS), (''amplitude'', ANALYTICS),
      (''zapier'', AUTOMATION), (''webhook'', AUTOMATION), (''code'', AUTOMATION)]"

text \<open>The loop of \<^verbatim>\<open>_categorize_tool\<close> over the prefix table: the first match wins.\<close>

fun find_category :: "string \<Rightarrow> (string \<times> ZapierToolCategory) list \<Rightarrow> ZapierToolCategory" where
  "find_category name_lower [] = OTHER"
| "find_category name_lower ((prefix, cat) # rest) =
     (if startswith name_lower prefix \<or> str_in (CHR ''_'' # prefix) name_lower then cat
      else find_category name_lower rest)"

text \<open>
  \<^verbatim>\<open>_categorize_tool\<close>. \<^verbatim>\<open>name.lower()\<close> and \<^verbatim>\<open>description.split\<close> exist only on
  strings.
\<close>

definition categorize_tool :: "MCPTool \<Rightarrow> exn + ZapierTool" where
  "categorize_tool t =
     (case name t of
        JStr n \<Rightarrow>
          (let name_lower = lower n;
               cat = find_category name_lower CATEGORY_PREFIXES;
               names = (case split_on CHR ''_'' n of
                   p0 # p1 # ps \<Rightarrow>
                     (title (replace_char CHR ''_'' CHR '' '' p0),
                      title (replace_char CHR ''_'' CHR '' '' (join '' '' (p1 # ps))))
                 | _ \<Rightarrow> (title n, ''Action''))
           in if truthy (description t)
              then (case description t of
                  JStr d \<Rightarrow>
                    (let first_sentence = (case split_on CHR ''.'' d of [] \<Rightarrow> [] | s # ss \<Rightarrow> s)
                     in Inr \<lparr>mcp_tool = t, app_name = fst names,
                             action_name = (if length first_sentence < 50 then first_sentence
                                            else snd names),
                             tool_category = cat, requires_auth = True, is_configured = True\<rparr>)
                | _ \<Rightarrow> Inl AttributeError)
              else Inr \<lparr>mcp_tool = t, app_name = fst names, action_name = snd names,
                        tool_category = cat, requires_auth = True, is_configured = True\<rparr>)
      | _ \<Rightarrow> Inl AttributeError)"

section \<open>Zapier client\<close>

text \<open>
  \<^verbatim>\<open>ZapierMCPClient\<close> (zapier_integration.py): the wrapped client (\<^verbatim>\<open>None\<close> before
  \<^verbatim>\<open>connect\<close>), the categorized tools by name, and the usage counters.
\<close>

record 'w ZapierMCPClient =
  mcp_client :: "'w MCPClient option"
  zapier_tools :: "(json \<times> ZapierTool) list"
  zapier_connected :: bool
  action_count :: nat
  success_count :: nat
  zapier_error_count :: nat
  actions_by_category :: "(string \<times> nat) list"
  actions_by_tool :: "(string \<times> nat) list"

text \<open>\<^verbatim>\<open>d[k] = d.get(k, 0) + 1\<close>.\<close>

definition bump :: "string \<Rightarrow> (string \<times> nat) list \<Rightarrow> (string \<times> nat) list" where
  "bump k d = AList.update k ((case map_of d k of None \<Rightarrow> 0 | Some n \<Rightarrow> n) + 1) d"

text \<open>The loop of \<^verbatim>\<open>refresh_tools\<close>; an exception leaves the tools stored so far.\<close>

fun categorize_all ::
  "MCPTool list \<Rightarrow> (json \<times> ZapierTool) list \<Rightarrow> exn option \<times> (json \<times> ZapierTool) list" where
  "categorize_all [] ts = (None, ts)"
| "categorize_all (t # rest) ts =
     (case categorize_tool t of
        Inl e \<Rightarrow> (Some e, ts)
      | Inr zt \<Rightarrow> categorize_all rest (AList.update (name (mcp_tool zt)) zt ts))"

definition refresh_tools ::
  "'w transport \<Rightarrow> 'w ZapierMCPClient \<Rightarrow> (exn + ZapierTool list) \<times> 'w ZapierMCPClient" where
  "refresh_tools T z =
     (case mcp_client z of
        None \<Rightarrow> (Inl (MCPConnectionError ''Not connected to Zapier''), z)
      | Some c \<Rightarrow>
          (case list_tools T c True of
             (Inl e, c1) \<Rightarrow> (Inl e, z\<lparr>mcp_client := Some c1\<rparr>)
           | (Inr mcp_tools, c1) \<Rightarrow>
               (case categorize_all mcp_tools [] of
                  (Some e, ts) \<Rightarrow> (Inl e, z\<lparr>mcp_client := Some c1, zapier_tools := ts\<rparr>)
                | (None, ts) \<Rightarrow>
                    (Inr (map snd ts), z\<lparr>mcp_client := Some c1, zapier_tools := ts\<rparr>))))"

definition zapier_get_tool ::
  "'w transport \<Rightarrow> 'w ZapierMCPClient \<Rightarrow> string
     \<Rightarrow> (exn + ZapierTool option) \<times> 'w ZapierMCPClient" where
  "zapier_get_tool T z tn =
     (if zapier_tools z = []
      then (case refresh_tools T z of
          (Inl e, z1) \<Rightarrow> (Inl e, z1)
        | (Inr ts, z1) \<Rightarrow> (Inr (map_of (zapier_tools z1) (JStr tn)), z1))
      else (Inr (map_of (zapier_tools z) (JStr tn)), z))"

text \<open>
  \<^verbatim>\<open>execute_action\<close>. The counters are updated before the call; the call itself is inside
  a \<^verbatim>\<open>try\<close> that counts an error, re-raises an \<^verbatim>\<open>MCPError\<close> and wraps any other
  \<^verbatim>\<open>Exception\<close>. An exception outside that class meets no \<^verbatim>\<open>except\<close> clause: it is
  raised on and no error is counted.
\<close>

definition wrap_unexpected :: "string \<Rightarrow> exn \<Rightarrow> exn" where
  "wrap_unexpected tn e =
     (if is_MCPError e then e
      else MCPToolExecutionError (''Unexpected error: '' @ exn_str e) (Some tn))"

definition execute_action ::
  "'w transport \<Rightarrow> interp \<Rightarrow> 'w ZapierMCPClient \<Rightarrow> string \<Rightarrow> dict
     \<Rightarrow> (exn + MCPToolResult) \<times> 'w ZapierMCPClient" where
  "execute_action T I z tn ps =
     (case mcp_client z of
        None \<Rightarrow> (Inl (MCPConnectionError ''Not connected to Zapier''), z)
      | Some c0 \<Rightarrow>
          (let z1 = z\<lparr>action_count := action_count z + 1\<rparr>
           in case zapier_get_tool T z1 tn of
                (Inl e, z2) \<Rightarrow> (Inl e, z2)
              | (Inr tool, z2) \<Rightarrow>
                  (let z3 = (case tool of
                               None \<Rightarrow> z2
                             | Some zt \<Rightarrow> z2\<lparr>actions_by_category :=
                                 bump (category_value (tool_category zt))
                                      (actions_by_category z2)\<rparr>);
                       z4 = z3\<lparr>actions_by_tool := bump tn (actions_by_tool z3)\<rparr>;
                       safe_params = mask_sensitive_data ps
                   in case mcp_client z4 of
                        None \<Rightarrow>
                          (Inl (wrap_unexpected tn AttributeError),
                           z4\<lparr>zapier_error_count := zapier_error_count z4 + 1\<rparr>)
                      | Some c \<Rightarrow>
                          (case call_tool T I c tn ps None of
                             (Inl e, c1) \<Rightarrow>
                               if is_Exception e
                               then (Inl (wrap_unexpected tn e),
                                     z4\<lparr>mcp_client := Some c1,
                                        zapier_error_count := zapier_error_count z4 + 1\<rparr>)
                               else (Inl e, z4\<lparr>mcp_client := Some c1\<rparr>)
                           | (Inr res, c1) \<Rightarrow>
                               (let z5 = z4\<lparr>mcp_client := Some c1\<rparr>
                                in if success res
                                   then (let z6 = z5\<lparr>success_count := success_count z5 + 1\<rparr>
                                         in if execution_time_ms res = None
                                            then (Inl (wrap_unexpected tn TypeError),
                                                  z6\<lparr>zapier_error_count :=
                                                       zapier_error_count z6 + 1\<rparr>)
                                            else (Inr res, z6))
                                   else (Inr res,
                                         z5\<lparr>zapier_error_count :=
                                              zapier_error_count z5 + 1\<rparr>))))))"

text \<open>
  \<^verbatim>\<open>execute_action_safe\<close>: one \<^verbatim>\<open>except Exception\<close> clause, which builds the result
  without an error code.
\<close>

definition execute_action_safe ::
  "'w transport \<Rightarrow> interp \<Rightarrow> 'w ZapierMCPClient \<Rightarrow> string \<Rightarrow> dict
     \<Rightarrow> (exn + MCPToolResult) \<times> 'w ZapierMCPClient" where
  "execute_action_safe T I z tn ps =
     (case execute_action T I z tn ps of
        (Inr res, z1) \<Rightarrow> (Inr res, z1)
      | (Inl e, z1) \<Rightarrow>
          if is_Exception e
          then (Inr \<lparr>success = False, tool_name = tn, result = JNull, error = Some (exn_str e),
                      error_code = None, execution_time_ms = None, metadata = []\<rparr>, z1)
          else (Inl e, z1))"

section \<open>Zapier tool manager\<close>

text \<open>
  \<^verbatim>\<open>ZapierToolManager\<close>: the prefix of the exposed tool names, the initialized flag, the
  Zapier client (\<^verbatim>\<open>None\<close> until \<^verbatim>\<open>initialize\<close> creates it) and the tool schemas.
\<close>

record 'w ZapierToolManager =
  prefix :: string
  initialized :: bool
  zapier_client :: "'w ZapierMCPClient option"
  tool_schemas :: dict

text \<open>The state \<^verbatim>\<open>__init__\<close> leaves.\<close>

definition new_manager :: "string \<Rightarrow> 'w ZapierToolManager" where
  "new_manager p = \<lparr>prefix = p, initialized = False, zapier_client = None, tool_schemas = []\<rparr>"

text \<open>\<^verbatim>\<open>d.get(key, default)\<close> on a dictionary.\<close>

definition dict_get :: "dict \<Rightarrow> string \<Rightarrow> json \<Rightarrow> json" where
  "dict_get d key dflt = (case map_of d key of None \<Rightarrow> dflt | Some v \<Rightarrow> v)"

text \<open>
  \<^verbatim>\<open>_extract_zapier_error_or_question\<close>. The two loops over the \<open>content\<close> list return
  \<open>Inr (Some v)\<close> when the loop body returns \<open>v\<close>, \<open>Inr None\<close> when the loop ends, and
  \<open>Inl e\<close> when an exception escapes the loop: the inner \<^verbatim>\<open>try\<close> catches only
  \<^verbatim>\<open>JSONDecodeError\<close>, so any other exception of \<^verbatim>\<open>json.loads\<close> escapes, and so does
  the \<^verbatim>\<open>TypeError\<close> it raises on a \<open>text\<close> that is not a string.
\<close>

fun scan_error_content :: "interp \<Rightarrow> json list \<Rightarrow> exn + json option" where
  "scan_error_content I [] = Inr None"
| "scan_error_content I (item # rest) =
     (case item of
        JDict d \<Rightarrow>
          if map_of d ''type'' = Some (JStr ''text'')
          then (case dict_get d ''text'' (JStr []) of
              JStr text \<Rightarrow>
                (case json_loads I text of
                   JSONDecodeError \<Rightarrow> scan_error_content I rest
                 | DecodeRaises k msg \<Rightarrow> Inl (PyException k msg)
                 | Decoded (JDict parsed) \<Rightarrow>
                     if truthy (dict_get parsed ''error'' JNull)
                     then Inr (Some (dict_get parsed ''error'' JNull))
                     else scan_error_content I rest
                 | Decoded _ \<Rightarrow> scan_error_content I rest)
            | _ \<Rightarrow> Inl TypeError)
          else scan_error_content I rest
      | _ \<Rightarrow> scan_error_content I rest)"

text \<open>What the scanner does with one parsed JSON object: return a value, or go on.\<close>

definition parsed_question :: "interp \<Rightarrow> dict \<Rightarrow> json option" where
  "parsed_question I parsed =
     (if truthy (dict_get parsed ''isError'' JNull)
      then Some (dict_get parsed ''error'' (JStr ''Zapier returned an error''))
      else (let err = dict_get parsed ''error'' (JStr [])
            in if truthy err
                  \<and> (str_in ''Question:'' (str_of I err) \<or> str_in ''?'' (str_of I err))
               then Some err
               else (let question = dict_get parsed ''question'' (JStr [])
                     in if truthy question then Some question else None)))"

text \<open>The test on a text that is not JSON.\<close>

definition raw_question :: "string \<Rightarrow> bool" where
  "raw_question text =
     (str_in ''Question:'' text \<or> (str_in ''?'' text \<and> str_in ''which'' (lower text)))"

fun scan_content :: "interp \<Rightarrow> json list \<Rightarrow> exn + json option" where
  "scan_content I [] = Inr None"
| "scan_content I (item # rest) =
     (case item of
        JDict d \<Rightarrow>
          if map_of d ''type'' = Some (JStr ''text'')
          then (case dict_get d ''text'' (JStr []) of
              JStr text \<Rightarrow>
                (case json_loads I text of
                   JSONDecodeError \<Rightarrow> if raw_question text then Inr (Some (JStr text))
                                       else scan_content I rest
                 | DecodeRaises k msg \<Rightarrow> Inl (PyException k msg)
                 | Decoded (JDict parsed) \<Rightarrow>
                     (case parsed_question I parsed of
                        Some v \<Rightarrow> Inr (Some v)
                      | None \<Rightarrow> scan_content I rest)
                 | Decoded _ \<Rightarrow> scan_content I rest)
            | _ \<Rightarrow> Inl TypeError)
          else scan_content I rest
      | _ \<Rightarrow> scan_content I rest)"

text \<open>
  The function itself; \<open>JNull\<close> is \<^verbatim>\<open>None\<close>. Its outer \<^verbatim>\<open>try ... except Exception\<close>
  turns every escaping exception into \<^verbatim>\<open>None\<close> (nothing is awaited inside, and what
  escapes the loops is an \<^verbatim>\<open>Exception\<close>). In the string branch the \<open>question\<close> field is
  not looked at.
\<close>

definition extract_zapier_error_or_question :: "interp \<Rightarrow> json \<Rightarrow> json" where
  "extract_zapier_error_or_question I res =
     (if \<not> truthy res then JNull
      else (case res of
          JDict d \<Rightarrow>
            if truthy (dict_get d ''isError'' JNull)
            then (case dict_get d ''content'' (JList []) of
                JList content \<Rightarrow>
                  (case scan_error_content I content of
                     Inl e \<Rightarrow> JNull
                   | Inr (Some v) \<Rightarrow> v
                   | Inr None \<Rightarrow> JStr ''Zapier returned an error'')
              | _ \<Rightarrow> JStr ''Zapier returned an error'')
            else (case dict_get d ''content'' (JList []) of
                JList content \<Rightarrow>
                  (case scan_content I content of
                     Inl e \<Rightarrow> JNull
                   | Inr (Some v) \<Rightarrow> v
                   | Inr None \<Rightarrow> JNull)
              | _ \<Rightarrow> JNull)
        | JStr s \<Rightarrow>
            (case json_loads I s of
               JSONDecodeError \<Rightarrow> if raw_question s then JStr s else JNull
             | DecodeRaises k msg \<Rightarrow> JNull
             | Decoded (JDict parsed) \<Rightarrow>
                 if truthy (dict_get parsed ''isError'' JNull)
                 then dict_get parsed ''error'' (JStr ''Zapier returned an error'')
                 else (let err = dict_get parsed ''error'' (JStr [])
                       in if truthy err
                             \<and> (str_in ''Question:'' (str_of I err) \<or> str_in ''?'' (str_of I err))
                          then err else JNull)
             | Decoded _ \<Rightarrow> JNull)
        | _ \<Rightarrow> JNull))"

text \<open>Optional values as they appear in the returned dictionary.\<close>

definition opt_str :: "string option \<Rightarrow> json" where
  "opt_str s = (case s of None \<Rightarrow> JNull | Some v \<Rightarrow> JStr v)"

definition opt_float :: "real option \<Rightarrow> json" where
  "opt_float r = (case r of None \<Rightarrow> JNull | Some v \<Rightarrow> JFloat v)"

text \<open>
  \<^verbatim>\<open>ZapierToolManager.execute\<close>. \<open>query\<close> and \<open>user_id\<close> are only logged. The result is the
  returned dictionary, or the exception raised, and the manager after the call.
  \<open>tool_name\<close> and \<open>params\<close> default to \<^verbatim>\<open>None\<close>; \<^verbatim>\<open>not tool_name\<close> also holds for
  the empty string. The \<^verbatim>\<open>try\<close> around the call has the clauses \<^verbatim>\<open>except MCPError\<close> and
  \<^verbatim>\<open>except Exception\<close>; neither builds a dictionary with an error code.
\<close>

definition not_initialized_result :: "string option \<Rightarrow> dict" where
  "not_initialized_result tn =
     [(''success'', JBool False),
      (''error'', JStr ''ZapierToolManager not initialized''),
      (''tool'', opt_str tn),
      (''provider'', JStr ''zapier_mcp'')]"

definition no_tool_name_result :: dict where
  "no_tool_name_result =
     [(''success'', JBool False),
      (''error'', JStr ''No tool_name provided''),
      (''tool'', JNull),
      (''provider'', JStr ''zapier_mcp'')]"

definition execute ::
  "'w transport \<Rightarrow> interp \<Rightarrow> 'w ZapierToolManager \<Rightarrow> string \<Rightarrow> string option
     \<Rightarrow> string option \<Rightarrow> dict option \<Rightarrow> (exn + dict) \<times> 'w ZapierToolManager" where
  "execute T I m query user_id tn ps =
     (if \<not> initialized m \<or> zapier_client m = None then (Inr (not_initialized_result tn), m)
      else if tn = None \<or> tn = Some [] then (Inr no_tool_name_result, m)
      else (case (zapier_client m, tn) of
          (Some z, Some n) \<Rightarrow>
            (let actual_tool_name =
                   (if startswith n (prefix m) then drop (length (prefix m)) n else n)
             in case execute_action T I z actual_tool_name
                       (case ps of None \<Rightarrow> [] | Some p \<Rightarrow> p) of
                  (Inr res, z1) \<Rightarrow>
                    (let zapier_question = extract_zapier_error_or_question I (result res)
                     in if truthy zapier_question
                        then (Inr [(''success'', JBool False),
                                   (''tool'', JStr n),
                                   (''result'', result res),
                                   (''error'', JStr (''Zapier needs more information: ''
                                                      @ str_of I zapier_question)),
                                   (''needs_clarification'', JBool True),
                                   (''clarification_question'', zapier_question),
                                   (''execution_time_ms'', opt_float (execution_time_ms res)),
                                   (''provider'', JStr ''zapier_mcp'')],
                              m\<lparr>zapier_client := Some z1\<rparr>)
                        else (Inr [(''success'', JBool (success res)),
                                   (''tool'', JStr n),
                                   (''result'', result res),
                                   (''error'', opt_str (error res)),
                                   (''execution_time_ms'', opt_float (execution_time_ms res)),
                                   (''provider'', JStr ''zapier_mcp'')],
                              m\<lparr>zapier_client := Some z1\<rparr>))
                | (Inl e, z1) \<Rightarrow>
                    if is_Exception e
                    then (Inr [(''success'', JBool False),
                               (''tool'', JStr n),
                               (''error'', JStr (if is_MCPError e then exn_str e
                                                  else ''Unexpected error: '' @ exn_str e)),
                               (''provider'', JStr ''zapier_mcp'')],
                          m\<lparr>zapier_client := Some z1\<rparr>)
                    else (Inl e, m\<lparr>zapier_client := Some z1\<rparr>))
        | _ \<Rightarrow> (Inr (not_initialized_result tn), m)))"

section \<open>The other client operations\<close>

text \<open>
  \<^verbatim>\<open>list_resources\<close>, \<^verbatim>\<open>read_resource\<close> and \<^verbatim>\<open>ping\<close>. \<^verbatim>\<open>list_resources\<close> logs
  \<^verbatim>\<open>len(resources)\<close>, which only strings, lists and dictionaries have. \<^verbatim>\<open>ping\<close>
  answers \<^verbatim>\<open>False\<close> to whatever its \<^verbatim>\<open>except Exception\<close> catches.
\<close>

fun has_len :: "json \<Rightarrow> bool" where
  "has_len (JStr _) = True"
| "has_len (JList _) = True"
| "has_len (JDict _) = True"
| "has_len _ = False"

definition list_resources :: "'w transport \<Rightarrow> 'w MCPClient \<Rightarrow> (exn + json) \<times> 'w MCPClient" where
  "list_resources T c =
     (if \<not> is_connected T c then (Inl (MCPConnectionError ''Not connected to MCP server''), c)
      else (case send_request T (world c) \<lparr>req_method = RESOURCES_LIST, req_params = None\<rparr> of
          (Inl e, w) \<Rightarrow> (Inl e, c\<lparr>world := w\<rparr>)
        | (Inr response, w) \<Rightarrow>
            if \<not> is_success response
            then (Inl (handle_error_response response ''list_resources''), c\<lparr>world := w\<rparr>)
            else if truthy (response_result response)
            then (case py_get (response_result response) ''resources'' (JList []) of
                Inl e \<Rightarrow> (Inl e, c\<lparr>world := w\<rparr>)
              | Inr resources \<Rightarrow>
                  if has_len resources then (Inr resources, c\<lparr>world := w\<rparr>)
                  else (Inl TypeError, c\<lparr>world := w\<rparr>))
            else (Inr (JList []), c\<lparr>world := w\<rparr>)))"

definition read_resource ::
  "'w transport \<Rightarrow> 'w MCPClient \<Rightarrow> string \<Rightarrow> (exn + json) \<times> 'w MCPClient" where
  "read_resource T c uri =
     (if \<not> is_connected T c then (Inl (MCPConnectionError ''Not connected to MCP server''), c)
      else (case send_request T (world c)
                   \<lparr>req_method = RESOURCES_READ,
                    req_params = Some (JDict [(''uri'', JStr uri)])\<rparr> of
          (Inl e, w) \<Rightarrow> (Inl e, c\<lparr>world := w\<rparr>)
        | (Inr response, w) \<Rightarrow>
            if \<not> is_success response
            then (Inl (handle_error_response response ''read_resource''), c\<lparr>world := w\<rparr>)
            else (Inr (if truthy (response_result response) then response_result response
                       else JDict []), c\<lparr>world := w\<rparr>)))"

definition ping :: "'w transport \<Rightarrow> 'w MCPClient \<Rightarrow> (exn + bool) \<times> 'w MCPClient" where
  "ping T c =
     (if \<not> is_connected T c then (Inr False, c)
      else (case send_request T (world c) \<lparr>req_method = PING, req_params = None\<rparr> of
          (Inl e, w) \<Rightarrow>
            if is_Exception e then (Inr False, c\<lparr>world := w\<rparr>) else (Inl e, c\<lparr>world := w\<rparr>)
        | (Inr response, w) \<Rightarrow>
            (Inr (is_success response \<or> response_error_code response = Some METHOD_NOT_FOUND),
             c\<lparr>world := w\<rparr>)))"

text \<open>
  The operations of a client as values, and the client after one of them. \<^verbatim>\<open>health_check\<close>
  changes the client only through its \<^verbatim>\<open>ping\<close>; \<^verbatim>\<open>get_stats\<close> changes nothing.
\<close>

datatype client_op =
    Connect
  | Disconnect
  | ListTools bool
  | GetTool string
  | CallTool string dict "bool option"
  | CallToolSafe string dict
  | ListResources
  | ReadResource string
  | Ping
  | HealthCheck
  | GetStats

fun run_op :: "'w transport \<Rightarrow> interp \<Rightarrow> 'w MCPClient \<Rightarrow> client_op \<Rightarrow> 'w MCPClient" where
  "run_op T I c Connect = snd (connect T c)"
| "run_op T I c Disconnect = disconnect T c"
| "run_op T I c (ListTools force_refresh) = snd (list_tools T c force_refresh)"
| "run_op T I c (GetTool tn) = snd (get_tool T c tn)"
| "run_op T I c (CallTool tn ps validate) = snd (call_tool T I c tn ps validate)"
| "run_op T I c (CallToolSafe tn ps) = snd (call_tool_safe T I c tn ps)"
| "run_op T I c ListResources = snd (list_resources T c)"
| "run_op T I c (ReadResource uri) = snd (read_resource T c uri)"
| "run_op T I c Ping = snd (ping T c)"
| "run_op T I c HealthCheck = (if is_connected T c then snd (ping T c) else c)"
| "run_op T I c GetStats = c"

section \<open>Offending parameters\<close>

text \<open>
  The required parameters that a parameter dictionary leaves out or sets to \<^verbatim>\<open>None\<close>, in
  the order of the schema, and the message \<^verbatim>\<open>validate_params\<close> writes for one of them.
\<close>

definition offending :: "dict \<Rightarrow> string list \<Rightarrow> string list" where
  "offending ps rs = filter (\<lambda>r. map_of ps r = None \<or> map_of ps r = Some JNull) rs"

definition offence_message :: "dict \<Rightarrow> string \<Rightarrow> string" where
  "offence_message ps r =
     (if map_of ps r = None then ''Missing required parameter: '' @ r
      else ''Required parameter cannot be null: '' @ r)"


section \<open>Exceptions of the transport\<close>

section \<open>A scripted transport\<close>

text \<open>
  A transport for concrete runs: the world is the log of the requests sent, every request
  is answered by a function of the request, and the clock shows the number of requests
  sent so far.
\<close>

definition scripted_transport :: "(MCPRequest \<Rightarrow> MCPResponse) \<Rightarrow> MCPRequest list transport" where
  "scripted_transport reply =
     \<lparr>transport_connect = (\<lambda>w. (Inr True, w)),
      transport_disconnect = (\<lambda>w. w),
      send_request = (\<lambda>w req. (Inr (reply req), w @ [req])),
      transport_is_connected = (\<lambda>w. True),
      utcnow = (\<lambda>w. real (length w))\<rparr>"

definition ok_response :: "json \<Rightarrow> MCPResponse" where
  "ok_response payload =
     \<lparr>is_success = True, response_result = payload, error_message = None,
      response_error_code = None, latency_ms = Some 12, is_rate_limited = False,
      is_auth_error = False, http_status = Some 200\<rparr>"

text \<open>A client as \<^verbatim>\<open>__init__\<close> leaves it with its default arguments, then marked connected.\<close>

definition new_client :: "MCPRequest list MCPClient" where
  "new_client =
     \<lparr>world = [], cache_tools = True, tool_cache_ttl = 300, validate_params_default = True,
      tools_cache = [], tools_cache_time = None, connected = False, server_info = JNull,
      call_count = 0, error_count = 0\<rparr>"

definition connected_client :: "(json \<times> MCPTool) list \<Rightarrow> MCPRequest list MCPClient" where
  "connected_client cache = new_client\<lparr>connected := True, tools_cache := cache\<rparr>"

text \<open>Two tools that take no parameters, and a discovery response that lists the second.\<close>

definition old_tool :: MCPTool where
  "old_tool = \<lparr>name = JStr ''old_tool'', description = JStr ''Old'', input_schema = JDict [],
     provider = JNull, category = JNull\<rparr>"

definition new_tool :: MCPTool where
  "new_tool = \<lparr>name = JStr ''new_tool'', description = JStr ''New'', input_schema = JDict [],
     provider = JNull, category = JNull\<rparr>"

definition new_tool_listing :: json where
  "new_tool_listing =
     JDict [(''tools'', JList [JDict [(''name'', JStr ''new_tool''),
                                      (''description'', JStr ''New''),
                                      (''inputSchema'', JDict [])]])]"

text \<open>The interpreter parameter of the concrete runs: no text is JSON, values print empty.\<close>

definition plain_interp :: interp where
  "plain_interp = \<lparr>json_loads = (\<lambda>s. JSONDecodeError), render = (\<lambda>v. [])\<rparr>"

text \<open>
  A Zapier client and a tool manager over a connected client, as \<^verbatim>\<open>initialize\<close> leaves
  them (before any tool is loaded), and the same with no client underneath.
\<close>

definition ready_zapier :: "MCPRequest list MCPClient option \<Rightarrow> MCPRequest list ZapierMCPClient" where
  "ready_zapier c =
     \<lparr>mcp_client = c, zapier_tools = [], zapier_connected = True, action_count = 0,
      success_count = 0, zapier_error_count = 0, actions_by_category = [],
      actions_by_tool = []\<rparr>"

definition ready_manager ::
  "MCPRequest list MCPClient option \<Rightarrow> MCPRequest list ZapierToolManager" where
  "ready_manager c =
     \<lparr>prefix = ''zapier_'', initialized = True, zapier_client = Some (ready_zapier c),
      tool_schemas = []\<rparr>"

text \<open>
  The payload of the soft-failure example: a text block whose text is the JSON object
  \<open>{"error":"Which calendar did you mean?"}\<close>, and an interpreter that parses that text.
\<close>

definition question_text :: string where
  \<open>question_text = ''{"error":"Which calendar did you mean?"}''\<close>

definition question_payload :: json where
  "question_payload =
     JDict [(''content'', JList [JDict [(''type'', JStr ''text''),
                                         (''text'', JStr question_text)]])]"

definition question_interp :: interp where
  "question_interp =
     \<lparr>json_loads = (\<lambda>s. if s = question_text
                          then Decoded (JDict [(''error'', JStr ''Which calendar did you mean?'')])
                          else JSONDecodeError),
      render = (\<lambda>v. [])\<rparr>"




text \<open>A transport whose \<^verbatim>\<open>send_request\<close> raises the given exception on every request.\<close>

definition raising_transport :: "exn \<Rightarrow> MCPRequest list transport" where
  "raising_transport e =
     \<lparr>transport_connect = (\<lambda>w. (Inr True, w)),
      transport_disconnect = (\<lambda>w. w),
      send_request = (\<lambda>w req. (Inl e, w @ [req])),
      transport_is_connected = (\<lambda>w. True),
      utcnow = (\<lambda>w. real (length w))\<rparr>"

text \<open>
  A text block whose text is a JSON object with the same question in its \<open>error\<close> field and
  an integer of 4301 digits next to it, and an interpreter that does to that text what
  \<^verbatim>\<open>json.loads\<close> does: the integer is over the limit of 4300 digits, so the call raises
  \<^verbatim>\<open>ValueError\<close>.
\<close>

definition oversized_text :: string where
  \<open>oversized_text =
     ''{"error":"Which calendar did you mean?","n":'' @ replicate 4301 CHR ''1'' @ ''}''\<close>

definition oversized_payload :: json where
  "oversized_payload =
     JDict [(''content'', JList [JDict [(''type'', JStr ''text''),
                                         (''text'', JStr oversized_text)]])]"

definition digit_limit_interp :: interp where
  "digit_limit_interp =
     \<lparr>json_loads = (\<lambda>s. if s = oversized_text
                          then DecodeRaises ''ValueError''
                                 ''Exceeds the limit (4300 digits) for integer string conversion''
                          else JSONDecodeError),
      render = (\<lambda>v. [])\<rparr>"
section \<open>Strings: the substring test\<close>

lemma startswith_iff: "startswith s p \<longleftrightarrow> (\<exists>b. s = p @ b)"
  by (induction s p rule: startswith.induct) auto

lemma str_in_iff: "str_in p s \<longleftrightarrow> (\<exists>a b. s = a @ p @ b)"
proof (induction s)
  case Nil
  then show ?case by auto
next
  case (Cons c cs)
  show ?case
  proof
    assume "str_in p (c # cs)"
    then consider "startswith (c # cs) p" | "str_in p cs" by auto
    then show "\<exists>a b. c # cs = a @ p @ b"
    proof cases
      case 1
      then obtain b where "c # cs = p @ b" by (auto simp: startswith_iff)
      then have "c # cs = [] @ p @ b" by simp
      then show ?thesis by blast
    next
      case 2
      then obtain a b where "cs = a @ p @ b" using Cons.IH by blast
      then have "c # cs = (c # a) @ p @ b" by simp
      then show ?thesis by blast
    qed
  next
    assume "\<exists>a b. c # cs = a @ p @ b"
    then obtain a b where ab: "c # cs = a @ p @ b" by blast
    show "str_in p (c # cs)"
    proof (cases a)
      case Nil
      with ab have "startswith (c # cs) p" by (auto simp: startswith_iff)
      then show ?thesis by simp
    next
      case (Cons x a')
      with ab have "cs = a' @ p @ b" by simp
      then have "str_in p cs" using Cons.IH by blast
      then show ?thesis by simp
    qed
  qed
qed

section \<open>Masking\<close>

lemma mask_list_map: "mask_list key xs = map (mask_value key) xs"
  by (induction xs) simp_all

lemma mask_items_map: "mask_items d = map (\<lambda>kv. (fst kv, mask_value (fst kv) (snd kv))) d"
  by (induction d) auto

lemma is_sensitive_iff:
  "is_sensitive key \<longleftrightarrow> (\<exists>p \<in> set sensitive_patterns. \<exists>a b. lower key = a @ p @ b)"
  by (simp add: is_sensitive_def list_ex_iff str_in_iff)

lemma is_sensitive_api_key: "is_sensitive ''api_key''"
  by code_simp

lemma is_sensitive_API_KEY: "is_sensitive ''API_KEY''"
  by code_simp

text \<open>
  C8, as stated, fails: the value under the key \<open>API_KEY\<close> is masked although the key
  name contains none of the substrings url, token, secret, key, password, auth, credential
  (the code tests the lower-cased key).
\<close>

theorem mask_sensitive_data_uppercase_key_counterexample:
  "mask_sensitive_data [(''API_KEY'', JStr ''abcdefgh1234'')]
     = [(''API_KEY'', JStr ''abcd...1234'')]
   \<and> \<not> list_ex (\<lambda>pattern. str_in pattern ''API_KEY'') sensitive_patterns"
  by (simp add: mask_sensitive_data_def is_sensitive_API_KEY mask_str_def sensitive_patterns_def)

text \<open>
  C8, amended: \<open>mask_sensitive_data\<close> keeps every key and walks nested dictionaries (each
  entry under its own key) and lists (each element under the key of the list). It replaces
  exactly the string values whose key name, lower-cased, contains one of the substrings
  url, token, secret, key, password, auth, credential: a string longer than 8 characters
  becomes its first 4 characters, \<open>...\<close> and its last 4 characters, a string of at most 8
  characters becomes \<open>****\<close>. Every other value is returned unchanged. In particular
  \<open>{"api_key": "abcdefgh1234"}\<close> maps to \<open>{"api_key": "abcd...1234"}\<close>.
\<close>

theorem mask_sensitive_data_amended:
  "mask_sensitive_data d = map (\<lambda>kv. (fst kv, mask_value (fst kv) (snd kv))) d
   \<and> mask_value k (JDict d') = JDict (mask_sensitive_data d')
   \<and> mask_value k (JList xs) = JList (map (mask_value k) xs)
   \<and> mask_value k (JStr v) =
        JStr (if (\<exists>p \<in> set sensitive_patterns. \<exists>a b. lower k = a @ p @ b)
              then (if length v > 8 then take 4 v @ ''...'' @ drop (length v - 4) v
                    else ''****'')
              else v)
   \<and> mask_value k JNull = JNull
   \<and> mask_value k (JBool b) = JBool b
   \<and> mask_value k (JInt i) = JInt i
   \<and> mask_value k (JFloat r) = JFloat r
   \<and> mask_sensitive_data [(''api_key'', JStr ''abcdefgh1234'')]
        = [(''api_key'', JStr ''abcd...1234'')]"
proof -
  have "mask_value k (JStr v) =
        JStr (if (\<exists>p \<in> set sensitive_patterns. \<exists>a b. lower k = a @ p @ b)
              then (if length v > 8 then take 4 v @ ''...'' @ drop (length v - 4) v
                    else ''****'')
              else v)"
    using is_sensitive_iff [of k] by (simp add: mask_str_def)
  moreover have "mask_sensitive_data [(''api_key'', JStr ''abcdefgh1234'')]
        = [(''api_key'', JStr ''abcd...1234'')]"
    by (simp add: mask_sensitive_data_def is_sensitive_api_key mask_str_def)
  ultimately show ?thesis
    by (simp add: mask_sensitive_data_def mask_items_map mask_list_map)
qed

section \<open>Credentials\<close>

text \<open>
  C5. The claim says that credentials which are in the cache but expired make
  \<open>get_zapier_credentials\<close> raise an authentication error. The code does not: expired
  credentials are not valid, so \<open>is_zapier_configured\<close> is false and the function returns
  \<^verbatim>\<open>None\<close> before it reaches its own expiry test, whatever the second reading of the
  clock is.
\<close>

theorem get_zapier_credentials_expired_returns_None:
  assumes "map_of (credentials_cache m) ''zapier'' = Some creds"
    and "expires_at creds = Some t"
    and "t < now1"
  shows "get_zapier_credentials now1 now2 m = Inr None"
  using assms
  by (simp add: get_zapier_credentials_def is_zapier_configured_def is_valid_def is_expired_def)

theorem get_zapier_credentials_expired_witness:
  "get_zapier_credentials 200 200 expired_manager = Inr None"
  using get_zapier_credentials_expired_returns_None
          [of expired_manager expired_credentials 100 200 200]
  by (simp add: expired_manager_def expired_credentials_def)

text \<open>
  The two parts of C5 that hold: with no entry, or an entry with an empty URL, the result is
  \<^verbatim>\<open>None\<close>; with an entry that has a URL and is not expired at either reading of the
  clock, the result is the entry. The exception is raised only when the credentials expire
  between the two readings.
\<close>

lemma get_zapier_credentials_unconfigured:
  "map_of (credentials_cache m) ''zapier'' = None
     \<Longrightarrow> get_zapier_credentials now1 now2 m = Inr None"
  by (simp add: get_zapier_credentials_def is_zapier_configured_def)

lemma get_zapier_credentials_configured:
  "map_of (credentials_cache m) ''zapier'' = Some creds \<Longrightarrow> server_url creds \<noteq> []
     \<Longrightarrow> \<not> is_expired now1 creds \<Longrightarrow> \<not> is_expired now2 creds
     \<Longrightarrow> get_zapier_credentials now1 now2 m = Inr (Some creds)"
  by (simp add: get_zapier_credentials_def is_zapier_configured_def is_valid_def)

lemma get_zapier_credentials_raises_iff:
  "(\<exists>e. get_zapier_credentials now1 now2 m = Inl e) \<longleftrightarrow>
     (\<exists>creds. map_of (credentials_cache m) ''zapier'' = Some creds \<and> server_url creds \<noteq> []
        \<and> \<not> is_expired now1 creds \<and> is_expired now2 creds)"
  by (auto simp: get_zapier_credentials_def is_zapier_configured_def is_valid_def
      split: option.splits)

section \<open>Tool definitions: parameters and round trip\<close>

lemma py_in_dict: "py_in k (JDict d) = Inr (map_of d k \<noteq> None)"
  by (simp add: map_of_eq_None_iff)

lemma shaped_results:
  assumes "schema_shaped (JDict d)" "input_schema t = JDict d"
  shows "required_params t = Inr (JList (schema_required d))"
    and "all_params t = Inr (schema_properties d)"
    and "optional_params t =
           Inr (filter (\<lambda>p. JStr p \<notin> set (schema_required d)) (schema_properties d))"
  using assms
  by (auto simp del: py_in.simps
      simp add: required_params_def all_params_def optional_params_def py_in_dict py_set_def
      schema_required_def schema_properties_def
      split: option.splits json.splits)

lemma from_dict_to_dict: "to_dict t = Inr d \<Longrightarrow> from_dict (JDict d) = Inr t"
  by (auto simp: to_dict_def from_dict_def split: sum.splits)

lemma to_dict_total:
  assumes "schema_shaped (input_schema t)"
  shows "\<exists>d. to_dict t = Inr d"
proof -
  from assms obtain d where d: "input_schema t = JDict d"
    by (cases "input_schema t") auto
  with assms shaped_results [of d t] show ?thesis
    by (simp add: to_dict_def)
qed

text \<open>
  C6, as stated, fails: for the schema \<open>{"properties": {"a": {}}, "required": ["b"]}\<close> the
  required parameters are \<open>["b"]\<close> and all parameters are \<open>["a"]\<close>; nothing in the code
  relates the two entries of a schema.
\<close>

theorem required_params_not_subset_counterexample:
  "required_params undeclared_required_tool = Inr (JList [JStr ''b''])
   \<and> all_params undeclared_required_tool = Inr [''a'']
   \<and> ''b'' \<notin> set [''a'']"
  by (simp add: required_params_def all_params_def undeclared_required_tool_def)

text \<open>
  C6, amended: for every input schema that is a dictionary whose \<open>properties\<close> entry, when
  present, is a dictionary and whose \<open>required\<close> entry, when present, is a list of hashable
  values, \<open>all_params\<close> is the list of keys of \<open>properties\<close>, \<open>required_params\<close> is the list
  under \<open>required\<close> as it stands (empty when there is no \<open>properties\<close> entry), and
  \<open>optional_params\<close> is \<open>all_params\<close> without the members of \<open>required_params\<close>, in the same
  order. That the required names are among all names is not promised.
\<close>

theorem optional_params_amended:
  assumes "input_schema t = JDict d" and "schema_shaped (JDict d)"
  shows "required_params t = Inr (JList (schema_required d))
       \<and> all_params t = Inr (schema_properties d)
       \<and> optional_params t =
           Inr (filter (\<lambda>p. JStr p \<notin> set (schema_required d)) (schema_properties d))
       \<and> set (filter (\<lambda>p. JStr p \<notin> set (schema_required d)) (schema_properties d))
           = set (schema_properties d) - {p. JStr p \<in> set (schema_required d)}
       \<and> (map_of d ''properties'' = None
            \<longrightarrow> schema_required d = [] \<and> schema_properties d = [])"
  using shaped_results [OF assms(2) assms(1)]
  by (auto simp: schema_required_def schema_properties_def)

theorem optional_params_amended_witness:
  "required_params email_tool = Inr (JList [JStr ''to'', JStr ''subject''])
   \<and> all_params email_tool = Inr [''to'', ''subject'', ''body'']
   \<and> optional_params email_tool = Inr [''body'']"
  using optional_params_amended [of email_tool email_schema]
  by (simp add: email_tool_def email_schema_def schema_required_def schema_properties_def)

text \<open>
  C7, as stated, fails: \<open>to_dict\<close> evaluates \<open>optional_params\<close>, which raises
  \<^verbatim>\<open>AttributeError\<close> on a tool whose schema has \<^verbatim>\<open>None\<close> under \<open>properties\<close>, so the
  round trip produces no tool there.
\<close>

theorem to_dict_raises_counterexample:
  "to_dict null_properties_tool = Inl AttributeError"
  by (simp add: to_dict_def required_params_def optional_params_def null_properties_tool_def)

text \<open>
  C7, amended: for every tool on which \<open>to_dict\<close> returns, and so for every tool whose
  schema is a dictionary with no \<open>properties\<close> entry or with a \<open>properties\<close> dictionary and,
  when present, a \<open>required\<close> list of hashable values, \<open>from_dict (to_dict tool)\<close> is the
  tool itself: it has the same name, description, required and optional parameters.
\<close>

theorem from_dict_to_dict_amended:
  "(to_dict t = Inr d \<longrightarrow>
      from_dict (JDict d) = Inr t
      \<and> (\<forall>t'. from_dict (JDict d) = Inr t' \<longrightarrow>
            name t' = name t \<and> description t' = description t
            \<and> required_params t' = required_params t
            \<and> optional_params t' = optional_params t))
   \<and> (schema_shaped (input_schema t) \<longrightarrow>
        (\<exists>d'. to_dict t = Inr d' \<and> from_dict (JDict d') = Inr t))"
proof -
  have "to_dict t = Inr d \<longrightarrow> from_dict (JDict d) = Inr t"
    by (simp add: from_dict_to_dict)
  moreover have "schema_shaped (input_schema t) \<longrightarrow>
        (\<exists>d'. to_dict t = Inr d' \<and> from_dict (JDict d') = Inr t)"
    using to_dict_total [of t] from_dict_to_dict [of t] by blast
  ultimately show ?thesis by auto
qed

theorem from_dict_to_dict_amended_witness:
  "schema_shaped (input_schema email_tool)
   \<and> (\<exists>d. to_dict email_tool = Inr d \<and> from_dict (JDict d) = Inr email_tool)"
proof -
  have "schema_shaped (input_schema email_tool)"
    by (simp add: email_tool_def email_schema_def)
  with from_dict_to_dict_amended [of email_tool] show ?thesis by blast
qed

section \<open>Client: the tool cache\<close>

lemma parse_tools_keys:
  "parse_tools items tools cache = (r, cache') \<Longrightarrow> fst ` set cache \<subseteq> fst ` set cache'"
proof (induction items tools cache rule: parse_tools.induct)
  case (1 tools cache)
  then show ?case by simp
next
  case (2 tool_data rest tools cache)
  show ?case
  proof (cases "from_dict tool_data")
    case (Inl e)
    with 2 show ?thesis by simp
  next
    case (Inr tool)
    show ?thesis
    proof (cases "hashable (name tool)")
      case False
      with 2 Inr show ?thesis by simp
    next
      case True
      with 2 Inr have "fst ` set (AList.update (name tool) tool cache) \<subseteq> fst ` set cache'"
        by simp
      then show ?thesis by (auto simp: AList.dom_update)
    qed
  qed
qed

lemma load_tools_keys:
  "load_tools res cache = (r, cache') \<Longrightarrow> fst ` set cache \<subseteq> fst ` set cache'"
  by (auto simp: load_tools_def split: if_splits sum.splits dest: parse_tools_keys)

lemma list_tools_cache_grows:
  "fst ` set (tools_cache c) \<subseteq> fst ` set (tools_cache (snd (list_tools T c f)))"
  by (auto simp: list_tools_def split: prod.splits sum.splits dest: load_tools_keys)

text \<open>
  C3. The claim says that a discovery call replaces the cache wholesale, so that tools absent
  from the response are no longer cached. The code stores each tool of the response under
  its name in the existing dictionary and never clears it: with \<open>old_tool\<close> cached and a
  response listing only \<open>new_tool\<close>, a forced refresh returns \<open>[new_tool]\<close>, keeps
  \<open>old_tool\<close> in the cache and stamps the cache with the clock after the request.
\<close>

theorem list_tools_keeps_absent_tool:
  "list_tools (scripted_transport (\<lambda>req. ok_response new_tool_listing))
      (connected_client [(JStr ''old_tool'', old_tool)]) True
     = (Inr [new_tool],
        (connected_client [(JStr ''old_tool'', old_tool), (JStr ''new_tool'', new_tool)])
          \<lparr>world := [\<lparr>req_method = TOOLS_LIST, req_params = None\<rparr>],
           tools_cache_time := Some 1\<rparr>)"
  by (simp add: list_tools_def load_tools_def scripted_transport_def ok_response_def
      new_tool_listing_def connected_client_def new_client_def is_connected_def from_dict_def
      new_tool_def)

text \<open>The part of C3 that holds: a discovery call that returns stamps the cache with the
  clock read after the request.\<close>

lemma list_tools_stamps:
  assumes "is_connected T c" and "f \<or> \<not> is_cache_valid T c"
    and "list_tools T c f = (Inr tools, c')"
  shows "tools_cache_time c' = Some (utcnow T (world c'))"
  using assms
  by (auto simp: list_tools_def split: prod.splits sum.splits if_splits)

section \<open>Client: validation in \<open>call_tool\<close>\<close>

lemma check_required_strs:
  "check_required I ps acc (map JStr rs)
     = Inr (acc @ map (offence_message ps) (offending ps rs))"
proof (induction rs arbitrary: acc)
  case Nil
  then show ?case by (simp add: offending_def)
next
  case (Cons r rs)
  show ?case
  proof (cases "map_of ps r")
    case None
    then show ?thesis
      using Cons [of "acc @ [''Missing required parameter: '' @ r]"]
      by (simp add: offending_def offence_message_def str_of_def)
  next
    case (Some v)
    show ?thesis
    proof (cases "v = JNull")
      case True
      with Some show ?thesis
        using Cons [of "acc @ [''Required parameter cannot be null: '' @ r]"]
        by (simp add: offending_def offence_message_def str_of_def)
    next
      case False
      with Some show ?thesis
        using Cons [of acc]
        by (cases v) (simp_all add: offending_def offence_message_def str_of_def)
    qed
  qed
qed

lemma validate_params_shaped:
  assumes "input_schema t = JDict d" "schema_shaped (JDict d)" "schema_required d = map JStr rs"
  shows "validate_params I t ps = Inr (map (offence_message ps) (offending ps rs))"
  using shaped_results [OF assms(2) assms(1)] assms(3)
  by (simp add: validate_params_def check_required_strs)

lemma get_tool_known:
  "map_of (tools_cache c) k = Some t \<Longrightarrow>
     get_tool T c tn = (Inr (map_of (tools_cache c) (JStr tn)), c)"
  by (auto simp: get_tool_def)

text \<open>
  What \<open>call_tool\<close> does with the required parameters, for a connected client, a tool in
  the cache whose schema has a \<open>properties\<close> dictionary and a \<open>required\<close> list of names,
  and validation enabled: when at least one required parameter is missing or \<^verbatim>\<open>None\<close>, it
  raises a validation error and sends nothing (the client only counts the call); the
  error's message joins one message per offending parameter, in the order of the schema,
  \<open>Missing required parameter: p\<close> or \<open>Required parameter cannot be null: p\<close>, and the same
  messages are stored in \<open>field_errors\<close> under the name of the tool. When no required
  parameter offends, the request is sent whatever other parameters there are: unknown
  parameters never cause rejection.
\<close>

lemma call_tool_validation:
  assumes conn: "is_connected T c"
    and known: "map_of (tools_cache c) (JStr tn) = Some t"
    and shaped: "input_schema t = JDict d" "schema_shaped (JDict d)"
                "schema_required d = map JStr rs"
    and val: "v = Some True \<or> (v = None \<and> validate_params_default c)"
  shows "(offending ps rs \<noteq> [] \<longrightarrow>
            call_tool T I c tn ps v =
              (Inl (MCPValidationError
                     (''Invalid parameters for '' @ tn @ '': ''
                        @ join ''; '' (map (offence_message ps) (offending ps rs)))
                     [(tn, map (offence_message ps) (offending ps rs))]),
               c\<lparr>call_count := call_count c + 1\<rparr>))
       \<and> (offending ps rs = [] \<longrightarrow>
            world (snd (call_tool T I c tn ps v)) =
              snd (send_request T (world c)
                     \<lparr>req_method = TOOLS_CALL,
                      req_params = Some (JDict [(''name'', JStr tn),
                                                (''arguments'', JDict ps)])\<rparr>))"
proof -
  let ?c1 = "c\<lparr>call_count := call_count c + 1\<rparr>"
  have g: "get_tool T ?c1 tn = (Inr (Some t), ?c1)"
    using known get_tool_known [of ?c1 "JStr tn" t T tn] by simp
  have sv: "(case v of None \<Rightarrow> validate_params_default c | Some b \<Rightarrow> b)"
    using val by auto
  have vp: "validate_params I t ps = Inr (map (offence_message ps) (offending ps rs))"
    using shaped by (rule validate_params_shaped)
  have c1: "is_connected T ?c1" using conn by (simp add: is_connected_def)
  show ?thesis
    using conn g vp val
    by (auto simp: call_tool_def Let_def split: prod.splits sum.splits)
qed

lemma call_tool_validation_null_example:
  "call_tool (scripted_transport (\<lambda>req. ok_response JNull)) plain_interp
        (connected_client [(JStr ''send_email'', email_tool)]) ''send_email''
        [(''to'', JNull), (''subject'', JStr ''hi'')] None
     = (Inl (MCPValidationError
              ''Invalid parameters for send_email: Required parameter cannot be null: to''
              [(''send_email'', [''Required parameter cannot be null: to''])]),
        (connected_client [(JStr ''send_email'', email_tool)])\<lparr>call_count := 1\<rparr>)"
proof -
  let ?T = "scripted_transport (\<lambda>req. ok_response JNull)"
  let ?c = "connected_client [(JStr ''send_email'', email_tool)]"
  let ?ps = "[(''to'', JNull), (''subject'', JStr ''hi'')]"
  have 1: "is_connected ?T ?c"
    by (simp add: is_connected_def connected_client_def new_client_def scripted_transport_def)
  have 2: "map_of (tools_cache ?c) (JStr ''send_email'') = Some email_tool"
    by (simp add: connected_client_def new_client_def)
  have 3: "input_schema email_tool = JDict email_schema"
    by (simp add: email_tool_def)
  have 4: "schema_shaped (JDict email_schema)"
    by (simp add: email_schema_def)
  have 5: "schema_required email_schema = map JStr [''to'', ''subject'']"
    by (simp add: email_schema_def schema_required_def)
  have 6: "None = Some True \<or> (None = None \<and> validate_params_default ?c)"
    by (simp add: connected_client_def new_client_def)
  have 7: "offending ?ps [''to'', ''subject''] = [''to'']"
    by (simp add: offending_def)
  show ?thesis
    using call_tool_validation [OF 1 2 3 4 5 6, of ?ps plain_interp] 7
    by (simp add: offence_message_def connected_client_def new_client_def)
qed

text \<open>
  C4. The claim says that the validation error's field list names exactly the offending
  parameters, \<open>["to"]\<close> for a schema requiring \<open>to\<close> and \<open>subject\<close> and the parameters
  \<open>{"subject": "hi"}\<close>, and \<^verbatim>\<open>MCPValidationError\<close> declares \<open>field_errors\<close> as a map from
  a field to its error. The code raises the error and sends nothing (the request log stays
  empty), but it stores the list of all messages under the name of the tool: the only key
  of \<open>field_errors\<close> is \<open>send_email\<close>, and the offending parameter \<open>to\<close> is not a key.
\<close>

theorem call_tool_field_errors_keyed_by_tool_name:
  "call_tool (scripted_transport (\<lambda>req. ok_response JNull)) plain_interp
        (connected_client [(JStr ''send_email'', email_tool)]) ''send_email''
        [(''subject'', JStr ''hi'')] None
     = (Inl (MCPValidationError
              ''Invalid parameters for send_email: Missing required parameter: to''
              [(''send_email'', [''Missing required parameter: to''])]),
        (connected_client [(JStr ''send_email'', email_tool)])\<lparr>call_count := 1\<rparr>)
   \<and> map fst (field_errors (MCPValidationError
              ''Invalid parameters for send_email: Missing required parameter: to''
              [(''send_email'', [''Missing required parameter: to''])])) = [''send_email'']
   \<and> map_of (field_errors (MCPValidationError
              ''Invalid parameters for send_email: Missing required parameter: to''
              [(''send_email'', [''Missing required parameter: to''])])) ''to'' = None
   \<and> world (connected_client [(JStr ''send_email'', email_tool)]) = []"
  by (simp add: call_tool_def get_tool_def connected_client_def new_client_def is_connected_def
      scripted_transport_def validate_params_def required_params_def all_params_def
      email_tool_def email_schema_def str_of_def)

section \<open>Client: connection state and counters\<close>

lemma list_tools_counts:
  "call_count (snd (list_tools T c f)) = call_count c
   \<and> error_count (snd (list_tools T c f)) = error_count c"
  by (auto simp: list_tools_def split: prod.splits sum.splits)

lemma get_tool_counts:
  "call_count (snd (get_tool T c tn)) = call_count c
   \<and> error_count (snd (get_tool T c tn)) = error_count c"
  using list_tools_counts [of T c False]
  by (auto simp: get_tool_def split: prod.splits sum.splits)

lemma prefetch_tools_counts:
  "call_count (snd (prefetch_tools T c)) = call_count c
   \<and> error_count (snd (prefetch_tools T c)) = error_count c"
  using list_tools_counts [of T c False]
  by (auto simp: prefetch_tools_def split: prod.splits sum.splits)

lemma connect_counts:
  "call_count (snd (connect T c)) = call_count c
   \<and> error_count (snd (connect T c)) = error_count c"
  by (auto simp: connect_def Let_def prefetch_tools_counts split: prod.splits sum.splits)

lemma disconnect_counts:
  "call_count (disconnect T c) = call_count c \<and> error_count (disconnect T c) = error_count c"
  by (simp add: disconnect_def)

lemma call_tool_counts:
  "call_count c \<le> call_count (snd (call_tool T I c tn ps v))
   \<and> error_count c \<le> error_count (snd (call_tool T I c tn ps v))"
proof (cases "is_connected T c")
  case False
  then show ?thesis by (simp add: call_tool_def)
next
  case True
  let ?c1 = "c\<lparr>call_count := call_count c + 1\<rparr>"
  obtain r c2 where g: "get_tool T ?c1 tn = (r, c2)" by (cases "get_tool T ?c1 tn")
  with get_tool_counts [of T ?c1 tn]
  have c2: "call_count c2 = call_count c + 1" "error_count c2 = error_count c" by simp_all
  show ?thesis using True g c2
    by (auto simp: call_tool_def Let_def split: prod.splits sum.splits option.splits)
qed

lemma call_tool_safe_counts:
  "call_count c \<le> call_count (snd (call_tool_safe T I c tn ps))
   \<and> error_count c \<le> error_count (snd (call_tool_safe T I c tn ps))"
  using call_tool_counts [of c T I tn ps None]
  by (auto simp: call_tool_safe_def split: prod.splits sum.splits exn.splits)

lemma other_counts:
  "call_count (snd (list_resources T c)) = call_count c"
  "error_count (snd (list_resources T c)) = error_count c"
  "call_count (snd (read_resource T c uri)) = call_count c"
  "error_count (snd (read_resource T c uri)) = error_count c"
  "call_count (snd (ping T c)) = call_count c"
  "error_count (snd (ping T c)) = error_count c"
  by (auto simp: list_resources_def read_resource_def ping_def split: prod.splits sum.splits)

lemma run_op_counts:
  "call_count c \<le> call_count (run_op T I c op) \<and> error_count c \<le> error_count (run_op T I c op)"
  using call_tool_counts call_tool_safe_counts
  by (cases op)
     (simp_all add: connect_counts disconnect_counts list_tools_counts get_tool_counts other_counts)

lemma run_ops_counts:
  "call_count c \<le> call_count (foldl (run_op T I) c ops)
   \<and> error_count c \<le> error_count (foldl (run_op T I) c ops)"
proof (induction ops arbitrary: c)
  case Nil
  then show ?case by simp
next
  case (Cons op ops)
  from Cons [of "run_op T I c op"] run_op_counts [of c T I op]
  show ?case by auto
qed

text \<open>
  C9: \<open>disconnect\<close> empties the tool cache, clears the cache timestamp and the server
  information, sets the connected flag to false and leaves both counters as they are; no
  operation of the client, \<open>connect\<close> included, ever lowers a counter, so over any sequence
  of operations the counters are non-decreasing.
\<close>

theorem disconnect_clears_and_counters_monotone:
  "tools_cache (disconnect T c) = []
   \<and> tools_cache_time (disconnect T c) = None
   \<and> server_info (disconnect T c) = JNull
   \<and> connected (disconnect T c) = False
   \<and> call_count (disconnect T c) = call_count c
   \<and> error_count (disconnect T c) = error_count c
   \<and> call_count c \<le> call_count (foldl (run_op T I) c ops)
   \<and> error_count c \<le> error_count (foldl (run_op T I) c ops)"
  using run_ops_counts [of c T I ops] by (simp add: disconnect_def)

section \<open>Exceptions raised by the strict operations\<close>




















section \<open>Tool manager: \<open>execute\<close>\<close>

text \<open>
  C10: before a successful \<open>initialize\<close> (the flag is false, or there is no client), and
  with no tool name (\<^verbatim>\<open>None\<close> or empty), \<open>execute\<close> returns a failure dictionary with
  \<open>success\<close> false, provider \<open>zapier_mcp\<close> and an error message, and leaves the manager as
  it was: the result does not depend on the transport, so nothing is dispatched.
\<close>

theorem execute_guards:
  "(\<not> initialized m \<or> zapier_client m = None \<longrightarrow>
      execute T I m query user_id tn ps =
        (Inr [(''success'', JBool False),
              (''error'', JStr ''ZapierToolManager not initialized''),
              (''tool'', (case tn of None \<Rightarrow> JNull | Some n \<Rightarrow> JStr n)),
              (''provider'', JStr ''zapier_mcp'')], m))
   \<and> (initialized m \<and> zapier_client m \<noteq> None \<and> (tn = None \<or> tn = Some []) \<longrightarrow>
      execute T I m query user_id tn ps =
        (Inr [(''success'', JBool False),
              (''error'', JStr ''No tool_name provided''),
              (''tool'', JNull),
              (''provider'', JStr ''zapier_mcp'')], m))"
  by (simp add: execute_def not_initialized_result_def no_tool_name_result_def opt_str_def)

theorem execute_guards_witness:
  "execute (scripted_transport (\<lambda>req. ok_response JNull)) plain_interp
      (new_manager ''zapier_'') ''send a mail'' None (Some ''zapier_gmail_send_email'') None
     = (Inr [(''success'', JBool False),
             (''error'', JStr ''ZapierToolManager not initialized''),
             (''tool'', JStr ''zapier_gmail_send_email''),
             (''provider'', JStr ''zapier_mcp'')], new_manager ''zapier_'')
   \<and> execute (scripted_transport (\<lambda>req. ok_response JNull)) plain_interp
      (ready_manager (Some (connected_client []))) ''send a mail'' None None None
     = (Inr [(''success'', JBool False),
             (''error'', JStr ''No tool_name provided''),
             (''tool'', JNull),
             (''provider'', JStr ''zapier_mcp'')], ready_manager (Some (connected_client [])))"
  using execute_guards [where m = "new_manager ''zapier_''"
          and T = "scripted_transport (\<lambda>req. ok_response JNull)" and I = plain_interp
          and query = "''send a mail''" and user_id = None
          and tn = "Some ''zapier_gmail_send_email''" and ps = None]
        execute_guards [where m = "ready_manager (Some (connected_client []))"
          and T = "scripted_transport (\<lambda>req. ok_response JNull)" and I = plain_interp
          and query = "''send a mail''" and user_id = None and tn = None and ps = None]
  by (simp add: new_manager_def ready_manager_def)

section \<open>The safe variants\<close>




text \<open>
  An exception outside the \<^verbatim>\<open>Exception\<close> hierarchy is not converted: when the transport
  raises one, each of the three raises it on.
\<close>

lemma safe_variants_pass_base_exception:
  "(call_tool T I c tn ps None = (Inl (PyBaseException k msg), c1) \<longrightarrow>
      call_tool_safe T I c tn ps = (Inl (PyBaseException k msg), c1))
   \<and> (execute_action T I z tn ps = (Inl (PyBaseException k msg), z1) \<longrightarrow>
        execute_action_safe T I z tn ps = (Inl (PyBaseException k msg), z1))
   \<and> (initialized m \<and> zapier_client m = Some z \<and> n \<noteq> []
        \<and> execute_action T I z
             (if startswith n (prefix m) then drop (length (prefix m)) n else n)
             (case pso of None \<Rightarrow> [] | Some p \<Rightarrow> p) = (Inl (PyBaseException k msg), z1) \<longrightarrow>
        execute T I m query user_id (Some n) pso
          = (Inl (PyBaseException k msg), m\<lparr>zapier_client := Some z1\<rparr>))"
  by (simp add: call_tool_safe_def execute_action_safe_def execute_def Let_def)

lemma call_tool_safe_cancelled_example:
  "fst (call_tool_safe (raising_transport (PyBaseException ''CancelledError'' []))
          plain_interp (connected_client []) ''gmail_send_email'' [])
     = Inl (PyBaseException ''CancelledError'' [])"
  by (simp add: call_tool_safe_def call_tool_def get_tool_def list_tools_def
      raising_transport_def connected_client_def new_client_def is_connected_def
      is_cache_valid_def Let_def)




section \<open>Soft failures\<close>

lemma scan_content_question:
  assumes "json_loads I t = Decoded (JDict parsed)"
    and "map_of parsed ''error'' = Some (JStr q)"
    and "str_in ''?'' q"
  shows "scan_content I (JDict [(''type'', JStr ''text''), (''text'', JStr t)] # rest)
           = Inr (Some (JStr q))"
proof -
  have q: "q \<noteq> []" using assms(3) by (cases q) auto
  have "parsed_question I parsed = Some (JStr q)"
    using assms q by (simp add: parsed_question_def dict_get_def str_of_def Let_def)
  then show ?thesis using assms(1) by (simp add: dict_get_def)
qed

lemma extract_question:
  assumes "json_loads I t = Decoded (JDict parsed)"
    and "map_of parsed ''error'' = Some (JStr q)"
    and "str_in ''?'' q"
  shows "extract_zapier_error_or_question I
           (JDict [(''content'', JList [JDict [(''type'', JStr ''text''), (''text'', JStr t)]])])
         = JStr q"
  using scan_content_question [OF assms, of "[]"]
  by (simp add: extract_zapier_error_or_question_def dict_get_def)

text \<open>
  When \<^verbatim>\<open>json.loads\<close> raises an exception that is not a \<^verbatim>\<open>JSONDecodeError\<close> on the text
  of the first text block, nothing is detected, whatever the text and the blocks after it.
\<close>

lemma extract_decode_raises:
  assumes "json_loads I t = DecodeRaises k msg"
  shows "extract_zapier_error_or_question I
           (JDict [(''content'', JList (JDict [(''type'', JStr ''text''), (''text'', JStr t)]
                                          # rest))])
         = JNull"
  using assms by (simp add: extract_zapier_error_or_question_def dict_get_def)

text \<open>
  C1, as stated, fails: the text of the payload below is a JSON object whose \<open>error\<close> field
  is the question \<open>Which calendar did you mean?\<close>, next to an integer of 4301 digits.
  \<^verbatim>\<open>json.loads\<close> raises \<^verbatim>\<open>ValueError\<close> on it, the scanner catches only
  \<^verbatim>\<open>JSONDecodeError\<close>, the outer handler answers \<^verbatim>\<open>None\<close>, and \<open>execute\<close> returns the
  invocation as a success, with no \<open>needs_clarification\<close> and no \<open>clarification_question\<close>.
\<close>

theorem execute_misses_question_counterexample:
  "fst (execute (scripted_transport (\<lambda>req. ok_response oversized_payload))
          digit_limit_interp (ready_manager (Some (connected_client [])))
          ''Find my meeting'' None (Some ''zapier_google_calendar_find_event'') None)
     = Inr [(''success'', JBool True),
            (''tool'', JStr ''zapier_google_calendar_find_event''),
            (''result'', oversized_payload),
            (''error'', JNull),
            (''execution_time_ms'', JFloat 12),
            (''provider'', JStr ''zapier_mcp'')]
   \<and> take 39 oversized_text = take 39 question_text
   \<and> length oversized_text = 39 + 5 + 4301 + 1"
proof -
  have x: "extract_zapier_error_or_question digit_limit_interp oversized_payload = JNull"
    using extract_decode_raises [where I = digit_limit_interp and t = oversized_text
        and k = "''ValueError''"
        and msg = "''Exceeds the limit (4300 digits) for integer string conversion''"
        and rest = "[]"]
    by (simp add: digit_limit_interp_def oversized_payload_def)
  have "\<exists>z1. execute_action (scripted_transport (\<lambda>req. ok_response oversized_payload))
          digit_limit_interp (ready_zapier (Some (connected_client [])))
          ''google_calendar_find_event'' []
          = (Inr \<lparr>success = True, tool_name = ''google_calendar_find_event'',
                  result = oversized_payload, error = None, error_code = None,
                  execution_time_ms = Some 12, metadata = []\<rparr>, z1)"
    by (simp add: execute_action_def zapier_get_tool_def refresh_tools_def list_tools_def
        load_tools_def call_tool_def get_tool_def from_response_def
        scripted_transport_def ok_response_def oversized_payload_def ready_zapier_def
        connected_client_def new_client_def is_connected_def is_cache_valid_def bump_def
        Let_def mask_sensitive_data_def)
  then obtain z1 where run:
    "execute_action (scripted_transport (\<lambda>req. ok_response oversized_payload))
          digit_limit_interp (ready_zapier (Some (connected_client [])))
          ''google_calendar_find_event'' []
          = (Inr \<lparr>success = True, tool_name = ''google_calendar_find_event'',
                  result = oversized_payload, error = None, error_code = None,
                  execution_time_ms = Some 12, metadata = []\<rparr>, z1)"
    by blast
  have 1: "fst (execute (scripted_transport (\<lambda>req. ok_response oversized_payload))
          digit_limit_interp (ready_manager (Some (connected_client [])))
          ''Find my meeting'' None (Some ''zapier_google_calendar_find_event'') None)
     = Inr [(''success'', JBool True),
            (''tool'', JStr ''zapier_google_calendar_find_event''),
            (''result'', oversized_payload),
            (''error'', JNull),
            (''execution_time_ms'', JFloat 12),
            (''provider'', JStr ''zapier_mcp'')]"
    using run x
    by (simp add: execute_def ready_manager_def Let_def opt_str_def opt_float_def)
  have 2: "take 39 oversized_text = take 39 question_text"
    by (simp add: oversized_text_def question_text_def)
  have 3: "length oversized_text = 39 + 5 + 4301 + 1"
    by (simp add: oversized_text_def)
  show ?thesis using 1 2 3 by simp
qed

text \<open>
  C1, amended: when the manager is initialized, the tool invocation returns, its result
  payload is \<open>{"content": [{"type": "text", "text": t}]}\<close> and \<^verbatim>\<open>json.loads\<close> returns, for
  \<open>t\<close>, an object whose \<open>error\<close> field is a string containing a question mark, \<open>execute\<close>
  returns a dictionary with \<open>success\<close> false, \<open>needs_clarification\<close> true and the error
  string as \<open>clarification_question\<close>.
\<close>

theorem execute_soft_failure_amended:
  assumes "initialized m" and "zapier_client m = Some z" and "n \<noteq> []"
    and "execute_action T I z (if startswith n (prefix m) then drop (length (prefix m)) n else n)
           (case ps of None \<Rightarrow> [] | Some p \<Rightarrow> p) = (Inr res, z1)"
    and "result res =
           JDict [(''content'', JList [JDict [(''type'', JStr ''text''), (''text'', JStr t)]])]"
    and "json_loads I t = Decoded (JDict parsed)"
    and "map_of parsed ''error'' = Some (JStr q)"
    and "str_in ''?'' q"
  shows "\<exists>d. execute T I m query user_id (Some n) ps = (Inr d, m\<lparr>zapier_client := Some z1\<rparr>)
           \<and> map_of d ''success'' = Some (JBool False)
           \<and> map_of d ''needs_clarification'' = Some (JBool True)
           \<and> map_of d ''clarification_question'' = Some (JStr q)"
proof -
  have q: "q \<noteq> []" using assms(8) by (cases q) auto
  have x: "extract_zapier_error_or_question I (result res) = JStr q"
    using extract_question [OF assms(6) assms(7) assms(8)] assms(5) by simp
  show ?thesis
    using assms(1-4) x q by (simp add: execute_def Let_def)
qed

theorem execute_soft_failure_amended_witness:
  "\<exists>d. fst (execute (scripted_transport (\<lambda>req. ok_response question_payload))
               question_interp (ready_manager (Some (connected_client [])))
               ''Find my meeting'' None (Some ''zapier_google_calendar_find_event'') None)
          = Inr d
        \<and> map_of d ''success'' = Some (JBool False)
        \<and> map_of d ''needs_clarification'' = Some (JBool True)
        \<and> map_of d ''clarification_question'' = Some (JStr ''Which calendar did you mean?'')
        \<and> str_in ''Which calendar'' ''Which calendar did you mean?''"
proof -
  let ?T = "scripted_transport (\<lambda>req. ok_response question_payload)"
  let ?m = "ready_manager (Some (connected_client []))"
  let ?z = "ready_zapier (Some (connected_client []))"
  let ?n = "''zapier_google_calendar_find_event''"
  have "\<exists>z1. execute_action ?T question_interp ?z ''google_calendar_find_event'' []
          = (Inr \<lparr>success = True, tool_name = ''google_calendar_find_event'',
                  result = question_payload, error = None, error_code = None,
                  execution_time_ms = Some 12, metadata = []\<rparr>, z1)"
    by (simp add: execute_action_def zapier_get_tool_def refresh_tools_def list_tools_def
        load_tools_def call_tool_def get_tool_def from_response_def
        scripted_transport_def ok_response_def question_payload_def ready_zapier_def
        connected_client_def new_client_def is_connected_def is_cache_valid_def bump_def
        Let_def mask_sensitive_data_def)
  then obtain z1 where run:
    "execute_action ?T question_interp ?z ''google_calendar_find_event'' []
       = (Inr \<lparr>success = True, tool_name = ''google_calendar_find_event'',
               result = question_payload, error = None, error_code = None,
               execution_time_ms = Some 12, metadata = []\<rparr>, z1)"
    by blast
  have 1: "initialized ?m" and 2: "zapier_client ?m = Some ?z"
    by (simp_all add: ready_manager_def)
  have 3: "?n \<noteq> []" by simp
  have 4: "execute_action ?T question_interp ?z
             (if startswith ?n (prefix ?m) then drop (length (prefix ?m)) ?n else ?n)
             (case None of None \<Rightarrow> [] | Some p \<Rightarrow> p)
           = (Inr \<lparr>success = True, tool_name = ''google_calendar_find_event'',
                   result = question_payload, error = None, error_code = None,
                   execution_time_ms = Some 12, metadata = []\<rparr>, z1)"
    using run by (simp add: ready_manager_def)
  have 5: "result \<lparr>success = True, tool_name = ''google_calendar_find_event'',
                   result = question_payload, error = None, error_code = None,
                   execution_time_ms = Some 12, metadata = []\<rparr>
           = JDict [(''content'', JList [JDict [(''type'', JStr ''text''),
                                                (''text'', JStr question_text)]])]"
    by (simp add: question_payload_def)
  have 6: "json_loads question_interp question_text
             = Decoded (JDict [(''error'', JStr ''Which calendar did you mean?'')])"
    by (simp add: question_interp_def)
  have 7: "map_of [(''error'', JStr ''Which calendar did you mean?'')] ''error''
             = Some (JStr ''Which calendar did you mean?'')"
    by simp
  have 8: "str_in ''?'' ''Which calendar did you mean?''" by code_simp
  have 9: "str_in ''Which calendar'' ''Which calendar did you mean?''" by code_simp
  from execute_soft_failure_amended [OF 1 2 3 4 5 6 7 8, of "''Find my meeting''" None]
  obtain d where d:
    "execute ?T question_interp ?m ''Find my meeting'' None (Some ?n) None
       = (Inr d, ?m\<lparr>zapier_client := Some z1\<rparr>)"
    "map_of d ''success'' = Some (JBool False)"
    "map_of d ''needs_clarification'' = Some (JBool True)"
    "map_of d ''clarification_question'' = Some (JStr ''Which calendar did you mean?'')"
    by blast
  show ?thesis using d 9 by auto
qed

end
